theory Spec2Isabelle
  imports Main
begin

section \<open>Python values, strings and exceptions\<close>

text \<open>
  The development embeds \<^verbatim>\<open>glayout/llm/train_and_run.py\<close>. Python strings are
  modelled as \<^typ>\<open>string\<close>, read as sequences of code points below 256 (Latin-1):
  every string constant of the source is ASCII. An exception is a value of \<open>error\<close>;
  a function that can raise returns \<open>error + 'a\<close>, a method that can raise after it has
  mutated its object returns the result together with the object.
\<close>

datatype error =
    ValueError string
  | IndexError
  | AttributeError
  | EOFError
  | Raised string

text \<open>
  \<open>ValueError\<close> is raised by the source itself (lines 81 and 278), \<open>IndexError\<close> by an
  index into an empty sequence, \<open>AttributeError\<close> by \<^verbatim>\<open>.get\<close> on a value that is
  no dictionary, \<open>EOFError\<close> by \<^verbatim>\<open>input()\<close> when standard input is at its end,
  and \<open>Raised name\<close> stands for any exception \<open>name\<close> that an external
  library call lets escape.
\<close>

datatype pyval =
    PyNone
  | PyBool bool
  | PyInt int
  | PyStr string
  | PyList "pyval list"
  | PyDict "(string \<times> pyval) list"

text \<open>
  \<open>pyval\<close> is what \<^verbatim>\<open>json.load\<close> can return (numbers restricted to integers);
  a dictionary is the association list of its items, looked up with \<^const>\<open>map_of\<close>.
\<close>

definition py_isspace :: "char \<Rightarrow> bool" where
  "py_isspace c =
     (let n = (of_char c :: nat)
      in (9 \<le> n \<and> n \<le> 13) \<or> (28 \<le> n \<and> n \<le> 32) \<or> n = 133 \<or> n = 160)"

definition strip :: "string \<Rightarrow> string" where
  "strip s = rev (dropWhile py_isspace (rev (dropWhile py_isspace s)))"

definition lower_char :: "char \<Rightarrow> char" where
  "lower_char c =
     (let n = (of_char c :: nat)
      in if (65 \<le> n \<and> n \<le> 90) \<or> (192 \<le> n \<and> n \<le> 222 \<and> n \<noteq> 215)
         then char_of (n + 32) else c)"

definition lower :: "string \<Rightarrow> string" where
  "lower s = map lower_char s"

fun py_in :: "string \<Rightarrow> string \<Rightarrow> bool" where
  "py_in sub [] = (sub = [])"
| "py_in sub (c # cs) = (take (length sub) (c # cs) = sub \<or> py_in sub cs)"

text \<open>
  \<open>py_in sub s\<close> is Python's \<^verbatim>\<open>sub in s\<close> on strings. \<open>py_slice xs start stop\<close> is
  \<^verbatim>\<open>xs[start:stop]\<close>: a negative bound counts from the end, and both bounds are
  clamped to the sequence.
\<close>

definition py_bound :: "nat \<Rightarrow> int \<Rightarrow> nat" where
  "py_bound n i = (if i < 0 then nat (max (i + int n) 0) else min (nat i) n)"

definition py_slice :: "'a list \<Rightarrow> int \<Rightarrow> int \<Rightarrow> 'a list" where
  "py_slice xs start stop =
     (let lo = py_bound (length xs) start; hi = py_bound (length xs) stop
      in take (hi - lo) (drop lo xs))"


section \<open>The objects the program handles\<close>

type_synonym path = "string list"
type_synonym token = nat

datatype fsnode = File string | Dir string "fsnode list"

fun node_name :: "fsnode \<Rightarrow> string" where
  "node_name (File n) = n"
| "node_name (Dir n cs) = n"

fun is_dir :: "fsnode \<Rightarrow> bool" where
  "is_dir (File n) = False"
| "is_dir (Dir n cs) = True"

datatype lm_source = Hub string | Disk path

record lm =
  lm_source :: lm_source
  lora_targets :: "string list option"
  train_mode :: bool

record tokenizer =
  tok_source :: pyval
  pad_token :: "string option"

datatype role = User | Assistant

record chat_message =
  role :: role
  content :: string

record collator =
  response_template :: string
  instruction_template :: string

text \<open>The two module-level flags of lines 41 and 42.\<close>

record globals =
  microsoft_model :: bool
  mistral_model :: bool

text \<open>
  Everything the file imports and calls without defining is a field of \<open>env\<close>: the
  directory tree below the module's directory, the text \<^verbatim>\<open>get_glayout_context()\<close>
  returns, the line \<^verbatim>\<open>input()\<close> reads from standard input (\<open>None\<close> when standard
  input is at its end), and the library calls, each of which either raises or returns. A tensor of
  one row is represented by that row, so \<^verbatim>\<open>inputs[0]\<close> and \<^verbatim>\<open>outputs[0]\<close>
  are the lists themselves; \<^verbatim>\<open>pad_token_id\<close> is represented by the padding token
  it identifies.
\<close>

record env =
  base_dir :: "fsnode list"
  cuda_available :: bool
  get_glayout_context :: string
  stdin_line :: "string option"
  model_from_pretrained :: "string \<Rightarrow> string \<Rightarrow> error option"
  peft_from_pretrained :: "path \<Rightarrow> string \<Rightarrow> error option"
  tokenizer_from_pretrained :: "pyval \<Rightarrow> string \<Rightarrow> error option"
  json_load :: "path \<Rightarrow> error + pyval"
  load_preprocessed_data_in_messages_format :: "error option"
  sft_train :: "lm \<Rightarrow> tokenizer \<Rightarrow> collator \<Rightarrow> path \<Rightarrow> error option"
  ragdb_open :: "path \<Rightarrow> error option"
  rag_query :: "string \<Rightarrow> nat \<Rightarrow> error + string option list"
  apply_chat_template :: "tokenizer \<Rightarrow> chat_message list \<Rightarrow> error + token list"
  lm_generate :: "lm \<Rightarrow> token list \<Rightarrow> nat \<Rightarrow> string option \<Rightarrow> error + token list"
  decode :: "tokenizer \<Rightarrow> token list \<Rightarrow> bool \<Rightarrow> error + string"

record session =
  converse_mode :: bool
  accesstoken :: string
  model :: lm
  tokenizer :: tokenizer
  device :: string
  pastfirst :: bool
  chat_history :: "chat_message list"


section \<open>Model catalogue and loading (lines 44 to 120)\<close>

datatype console = Print string | Input string

record catalog_entry =
  modelname :: string
  target_modules :: "string list"
  console :: "console list"

text \<open>
  Lines 68 to 81. The entry for \<^verbatim>\<open>22b\<close> prints an advice and then calls
  \<^verbatim>\<open>input\<close>: with standard input at its end the call raises \<open>EOFError\<close> and
  no entry is returned; otherwise the line read is discarded. What was printed and
  prompted is kept in the \<open>console\<close> field.
\<close>

definition resolve :: "env \<Rightarrow> string \<Rightarrow> error + catalog_entry" where
  "resolve env model_arg =
     (let key = lower (strip model_arg)
      in if key = ''3b'' then
           Inr \<lparr>modelname = ''microsoft/Phi-3-mini-128k-instruct'',
                target_modules = [''qkv_proj''], console = []\<rparr>
         else if key = ''7b'' then
           Inr \<lparr>modelname = ''mistralai/Mistral-7B-Instruct-v0.3'',
                target_modules = [''q_proj'', ''k_proj'', ''v_proj''], console = []\<rparr>
         else if key = ''22b'' then
           (case stdin_line env of
              None \<Rightarrow> Inl EOFError
            | Some reply \<Rightarrow>
                Inr \<lparr>modelname = ''mistralai/Codestral-22B-v0.1'',
                     target_modules = [''q_proj'', ''k_proj'', ''v_proj''],
                     console =
                       [Print ''consider setting PYTORCH_CUDA_ALLOC_CONF=garbage_collection_threshold:0.6,max_split_size_mb:128'',
                        Input ''type anything to continue:'']\<rparr>)
         else Inl (ValueError ''a model must be provided from 3b, 7b, or 22b''))"

text \<open>
  \<open>load_model_and_tokenizer\<close>, with \<^verbatim>\<open>lora\<close> at its default \<^verbatim>\<open>True\<close> as at both
  call sites; \<^verbatim>\<open>qlora\<close> is the constant \<^verbatim>\<open>True\<close> of line 63, so the branches
  under \<^verbatim>\<open>not qlora\<close> never run. The flags are assigned as soon as the catalogue
  has answered, before any download; when the catalogue raises they keep their values.
\<close>

definition load_model_and_tokenizer ::
  "env \<Rightarrow> globals \<Rightarrow> string \<Rightarrow> string \<Rightarrow> string \<Rightarrow> (error + lm \<times> tokenizer) \<times> globals" where
  "load_model_and_tokenizer env g model_arg token dev =
     (case resolve env model_arg of
        Inl e \<Rightarrow> (Inl e, g)
      | Inr entry \<Rightarrow>
          (let g1 = g\<lparr>microsoft_model := py_in ''microsoft'' (modelname entry),
                      mistral_model := py_in ''mistral'' (modelname entry)\<rparr>
           in case model_from_pretrained env (modelname entry) token of
                Some e \<Rightarrow> (Inl e, g1)
              | None \<Rightarrow>
                  (case tokenizer_from_pretrained env (PyStr (modelname entry)) token of
                     Some e \<Rightarrow> (Inl e, g1)
                   | None \<Rightarrow>
                       (Inr (\<lparr>lm_source = Hub (modelname entry),
                              lora_targets = Some (target_modules entry),
                              train_mode = True\<rparr>,
                             \<lparr>tok_source = PyStr (modelname entry),
                              pad_token = Some ''[PAD]''\<rparr>), g1))))"


section \<open>Plain completion (lines 123 to 144)\<close>

text \<open>
  The optional argument \<^verbatim>\<open>max_new_tokens\<close> is an \<open>option\<close>: \<open>None\<close> is the call
  that leaves it out and gets the default of line 124.
\<close>

definition run_llm_normal ::
  "env \<Rightarrow> lm \<Rightarrow> tokenizer \<Rightarrow> string \<Rightarrow> string \<Rightarrow> nat option \<Rightarrow> error + string" where
  "run_llm_normal env m t dev prompt max_new_tokens =
     (let budget = (case max_new_tokens of None \<Rightarrow> 1000 | Some n \<Rightarrow> n)
      in case apply_chat_template env t [\<lparr>role = User, content = prompt\<rparr>] of
           Inl e \<Rightarrow> Inl e
         | Inr inputs \<Rightarrow>
             (case lm_generate env (m\<lparr>train_mode := False\<rparr>) inputs budget None of
                Inl e \<Rightarrow> Inl e
              | Inr outputs \<Rightarrow> decode env t outputs True))"


section \<open>Supervised fine-tuning (lines 217 to 297)\<close>

text \<open>Lines 273 to 278: the collator is chosen by the two flags, in this order.\<close>

definition select_collator :: "globals \<Rightarrow> error + collator" where
  "select_collator g =
     (if microsoft_model g then
        Inr \<lparr>response_template = ''<|assistant|>'', instruction_template = ''<|user|>''\<rparr>
      else if mistral_model g then
        Inr \<lparr>response_template = ''[/INST]'', instruction_template = ''[INST]''\<rparr>
      else Inl (ValueError ''could not find a valid model, please specify a model type either mistral models or microsoft (phi) models''))"

definition output_dir :: "globals \<Rightarrow> path" where
  "output_dir g =
     [''glayout_llm_checkpoints'' @ (if microsoft_model g then ''phi'' else ''mstrl'')]"

text \<open>
  \<open>sft_train\<close> stands for building the trainer, \<^verbatim>\<open>trainer.train()\<close> and
  \<^verbatim>\<open>save_pretrained\<close> into \<^verbatim>\<open>output_dir / "checkpoint-bestperf"\<close>; the numeric
  training arguments do not influence control flow and are left out.
\<close>

definition run_full_SFT_training ::
  "env \<Rightarrow> globals \<Rightarrow> string \<Rightarrow> string \<Rightarrow> (error + lm \<times> tokenizer) \<times> globals" where
  "run_full_SFT_training env g model_arg token =
     (let dev = (if cuda_available env then ''cuda'' else ''cpu'')
      in case load_model_and_tokenizer env g model_arg token dev of
           (Inl e, g1) \<Rightarrow> (Inl e, g1)
         | (Inr (m, t), g1) \<Rightarrow>
             (case load_preprocessed_data_in_messages_format env of
                Some e \<Rightarrow> (Inl e, g1)
              | None \<Rightarrow>
                  (case select_collator g1 of
                     Inl e \<Rightarrow> (Inl e, g1)
                   | Inr data_collator \<Rightarrow>
                       (case sft_train env m t data_collator
                               (output_dir g1 @ [''checkpoint-bestperf'']) of
                          Some e \<Rightarrow> (Inl e, g1)
                        | None \<Rightarrow> (Inr (m\<lparr>train_mode := False\<rparr>, t), g1)))))"


section \<open>The session handler (lines 300 to 420)\<close>

definition RESPONSE :: string where
  "RESPONSE = ''Thank you for providing the detailed context on Glayout strict syntax. I now have a foundational understanding of the commands. You can prompt me with specific requests to create circuits, and I will be able to write the Glayout strict syntax commands for you.''"

definition PREAMBLE :: string where
  "PREAMBLE = ''Glayout strictsyntax is a electronic circuit layout command language.\<newline>''"

definition CONTEXT_NOTE :: string where
  "CONTEXT_NOTE = ''The following is more specific context. This is only useful if it is related to the circuit the user is requesting below.\<newline>''"

definition CONVERT :: string where
  "CONVERT = ''Convert the following prompt to Glayout strictsyntax:\<newline>''"

definition clear_history :: "env \<Rightarrow> session \<Rightarrow> session" where
  "clear_history env s =
     (let s1 = s\<lparr>chat_history := []\<rparr>
      in if \<not> converse_mode s1 then
           (let s2 = s1\<lparr>pastfirst := False\<rparr>;
                s3 = s2\<lparr>chat_history := chat_history s2 @
                         [\<lparr>role = User, content = get_glayout_context env\<rparr>]\<rparr>
            in s3\<lparr>chat_history := chat_history s3 @
                     [\<lparr>role = Assistant, content = RESPONSE\<rparr>]\<rparr>)
         else s1\<lparr>pastfirst := True\<rparr>)"

text \<open>
  \<^verbatim>\<open>get_base_model_name_or_path\<close> (lines 354 to 358): \<open>json_load\<close> opens and parses
  the file; \<^verbatim>\<open>dict.get\<close> answers \<^verbatim>\<open>None\<close> for a key that is absent.
\<close>

definition get_base_model_name_or_path :: "env \<Rightarrow> path \<Rightarrow> error + pyval" where
  "get_base_model_name_or_path env file_path =
     (case json_load env file_path of
        Inl e \<Rightarrow> Inl e
      | Inr (PyDict items) \<Rightarrow>
          (case map_of items ''base_model_name_or_path'' of
             None \<Rightarrow> Inr PyNone
           | Some v \<Rightarrow> Inr v)
      | Inr _ \<Rightarrow> Inl AttributeError)"

definition load_model_from_checkpoint ::
  "env \<Rightarrow> path \<Rightarrow> string \<Rightarrow> string \<Rightarrow> error + lm \<times> tokenizer" where
  "load_model_from_checkpoint env checkpoint_dir dev token =
     (case peft_from_pretrained env checkpoint_dir dev of
        Some e \<Rightarrow> Inl e
      | None \<Rightarrow>
          (case get_base_model_name_or_path env (checkpoint_dir @ [''adapter_config.json'']) of
             Inl e \<Rightarrow> Inl e
           | Inr model_id \<Rightarrow>
               (case tokenizer_from_pretrained env model_id token of
                  Some e \<Rightarrow> Inl e
                | None \<Rightarrow>
                    Inr (\<lparr>lm_source = Disk checkpoint_dir, lora_targets = None,
                          train_mode = False\<rparr>,
                         \<lparr>tok_source = model_id, pad_token = Some ''[PAD]''\<rparr>))))"

text \<open>
  Line 315: \<^verbatim>\<open>base_path.glob("**/*checkpoint-bestperf*")\<close>. The recursive wildcard
  visits a directory before its subdirectories; in each visited directory the entries
  whose name contains the marker are reported in listing order, files and directories
  alike. A match is reported with what \<^verbatim>\<open>is_dir()\<close> answers for it.
\<close>

fun glob_checkpoints :: "path \<Rightarrow> fsnode list \<Rightarrow> (path \<times> bool) list" and
    glob_below :: "path \<Rightarrow> fsnode list \<Rightarrow> (path \<times> bool) list" and
    glob_node :: "path \<Rightarrow> fsnode \<Rightarrow> (path \<times> bool) list" where
  "glob_checkpoints p cs =
     map (\<lambda>c. (p @ [node_name c], is_dir c))
         (filter (\<lambda>c. py_in ''checkpoint-bestperf'' (node_name c)) cs) @ glob_below p cs"
| "glob_below p [] = []"
| "glob_below p (c # cs) = glob_node p c @ glob_below p cs"
| "glob_node p (File n) = []"
| "glob_node p (Dir n cs) = glob_checkpoints (p @ [n]) cs"

declare glob_checkpoints.simps [simp del]

text \<open>Lines 316 to 318.\<close>

definition select_checkpoint :: "(path \<times> bool) list \<Rightarrow> path option" where
  "select_checkpoint checkpoint_dirs =
     (if length checkpoint_dirs > 0 \<and> snd (last checkpoint_dirs)
      then Some (fst (last checkpoint_dirs)) else None)"

text \<open>
  Lines 314 to 327 of the constructor: load the selected checkpoint, or train when none
  was selected. \<open>model_key\<close> is \<^verbatim>\<open>self.model\<close>, the stripped and lower-cased
  argument of line 311.
\<close>

definition init_model ::
  "env \<Rightarrow> globals \<Rightarrow> string \<Rightarrow> string \<Rightarrow> string \<Rightarrow> (error + lm \<times> tokenizer) \<times> globals" where
  "init_model env g model_key token dev =
     (case select_checkpoint (glob_checkpoints [] (base_dir env)) of
        Some checkpoint_dir \<Rightarrow> (load_model_from_checkpoint env checkpoint_dir dev token, g)
      | None \<Rightarrow> run_full_SFT_training env g model_key token)"

text \<open>
  The constructor. The attributes \<^verbatim>\<open>pastfirst\<close> and \<^verbatim>\<open>chat_history\<close> do not exist
  before line 332; \<open>clear_history\<close> assigns both, so the values given to them
  here are never read.
\<close>

definition init ::
  "env \<Rightarrow> globals \<Rightarrow> string \<Rightarrow> string \<Rightarrow> bool \<Rightarrow> (error + session) \<times> globals" where
  "init env g model_arg token converse_arg =
     (let dev = (if cuda_available env then ''cuda'' else ''cpu'')
      in case init_model env g (lower (strip model_arg)) token dev of
           (Inl e, g1) \<Rightarrow> (Inl e, g1)
         | (Inr (m, t), g1) \<Rightarrow>
             (case ragdb_open env [''rag_data''] of
                Some e \<Rightarrow> (Inl e, g1)
              | None \<Rightarrow>
                  (Inr (clear_history env
                          \<lparr>converse_mode = converse_arg, accesstoken = token, model = m,
                           tokenizer = t, device = dev, pastfirst = False,
                           chat_history = []\<rparr>), g1)))"

text \<open>
  Lines 388 to 399 of \<open>generate\<close>: the prompt of this turn. The retriever is asked
  for one result and the answer is indexed at 0.
\<close>

definition generate_full_prompt ::
  "env \<Rightarrow> string \<Rightarrow> session \<Rightarrow> (error + string) \<times> session" where
  "generate_full_prompt env user_input s =
     (if \<not> pastfirst s then
        (case rag_query env user_input 1 of
           Inl e \<Rightarrow> (Inl e, s)
         | Inr [] \<Rightarrow> (Inl IndexError, s)
         | Inr (rag_content # rest) \<Rightarrow>
             (Inr (PREAMBLE
                   @ (case rag_content of
                        None \<Rightarrow> []
                      | Some text \<Rightarrow> CONTEXT_NOTE @ text @ ''\<newline>'')
                   @ CONVERT @ user_input),
              s\<lparr>pastfirst := True\<rparr>))
      else (Inr user_input, s))"

text \<open>
  Lines 401 to 415: the turn itself. The state returned with an error is the session as
  the exception leaves it.
\<close>

definition generate_turn ::
  "env \<Rightarrow> string \<Rightarrow> session \<Rightarrow> (error + string) \<times> session" where
  "generate_turn env full_prompt s =
     (let s1 = s\<lparr>chat_history := chat_history s @ [\<lparr>role = User, content = full_prompt\<rparr>]\<rparr>
      in case apply_chat_template env (tokenizer s1) (chat_history s1) of
           Inl e \<Rightarrow> (Inl e, s1)
         | Inr inputs \<Rightarrow>
             (case lm_generate env (model s1) inputs 1024 (pad_token (tokenizer s1)) of
                Inl e \<Rightarrow> (Inl e, s1)
              | Inr outputs \<Rightarrow>
                  (case decode env (tokenizer s1)
                          (py_slice outputs (int (length inputs)) (- 1)) False of
                     Inl e \<Rightarrow> (Inl e, s1)
                   | Inr response \<Rightarrow>
                       (Inr response,
                        s1\<lparr>chat_history := chat_history s1 @
                              [\<lparr>role = Assistant, content = response\<rparr>]\<rparr>))))"

definition generate :: "env \<Rightarrow> string \<Rightarrow> session \<Rightarrow> (error + string) \<times> session" where
  "generate env user_input s =
     (case generate_full_prompt env user_input (s\<lparr>model := (model s)\<lparr>train_mode := False\<rparr>\<rparr>) of
        (Inl e, s1) \<Rightarrow> (Inl e, s1)
      | (Inr full_prompt, s1) \<Rightarrow> generate_turn env full_prompt s1)"


section \<open>Sequences of calls and sample environments\<close>

text \<open>
  A client of a session calls \<open>generate\<close> and \<open>clear_history\<close> in some order; the
  outcome of each call is dropped here and the session is kept.
\<close>

datatype call = Generate string | Clear_history

fun call_session :: "env \<Rightarrow> call \<Rightarrow> session \<Rightarrow> session" where
  "call_session env (Generate user_input) s = snd (generate env user_input s)"
| "call_session env Clear_history s = clear_history env s"

definition calls :: "env \<Rightarrow> call list \<Rightarrow> session \<Rightarrow> session" where
  "calls env cs s = fold (call_session env) cs s"

text \<open>
  \<open>node_at cs p node\<close>: below a directory with entries \<open>cs\<close>, the relative path \<open>p\<close>
  leads to \<open>node\<close>.
\<close>

inductive node_at :: "fsnode list \<Rightarrow> path \<Rightarrow> fsnode \<Rightarrow> bool" where
  here: "c \<in> set cs \<Longrightarrow> node_at cs [node_name c] c"
| below: "Dir n ds \<in> set cs \<Longrightarrow> node_at ds p c \<Longrightarrow> node_at cs (n # p) c"

text \<open>
  What the scan of line 315 is expected to report under the relative path \<open>rel\<close>: an
  entry at that path whose name contains the marker, with its kind.
\<close>

abbreviation reported :: "fsnode list \<Rightarrow> path \<Rightarrow> bool \<Rightarrow> bool" where
  "reported cs rel b \<equiv>
     (\<exists>node. node_at cs rel node \<and> py_in ''checkpoint-bestperf'' (node_name node) \<and> b = is_dir node)"

text \<open>
  A sample world: no checkpoint on disk, every load succeeds, the retriever knows one
  snippet, the chat template yields one token per message, the model continues its
  input by three tokens when asked for at most 1024 new ones and by one token when
  asked for at most 1000, and decoding shows the tokens it was given and whether
  special tokens were to be skipped.
\<close>

definition show_tokens :: "token list \<Rightarrow> string" where
  "show_tokens ts =
     concat (map (\<lambda>n. if n = 1 then ''a'' else if n = 2 then ''b''
                       else if n = 3 then ''c'' else ''?'') ts)"

definition sample_env :: env where
  "sample_env =
     \<lparr>base_dir = [Dir ''rag_data'' [File ''inverter.md'']],
      cuda_available = False,
      get_glayout_context = ''Glayout commands: place, route, move.'',
      stdin_line = Some ''y'',
      model_from_pretrained = (\<lambda>name token. None),
      peft_from_pretrained = (\<lambda>dir dev. None),
      tokenizer_from_pretrained = (\<lambda>name token. None),
      json_load = (\<lambda>file. Inl (Raised ''FileNotFoundError'')),
      load_preprocessed_data_in_messages_format = None,
      sft_train = (\<lambda>m t c out. None),
      ragdb_open = (\<lambda>dir. None),
      rag_query = (\<lambda>q k. if q = ''inverter'' then Inr [Some ''ctx-A''] else Inr [None]),
      apply_chat_template = (\<lambda>t msgs. Inr (map (\<lambda>m. 1) msgs)),
      lm_generate = (\<lambda>m inputs budget pad.
         if budget = 1024 then Inr (inputs @ [3, 1, 2])
         else if budget = 1000 then Inr (inputs @ [4])
         else Inl (Raised ''RuntimeError'')),
      decode = (\<lambda>t ts skip. Inr ((if skip then ''plain: '' else ''special: '') @ show_tokens ts))\<rparr>"

text \<open>
  The same world with standard input at its end, and the same world with a retriever
  that answers every query with the empty sequence.
\<close>

definition unattended_env :: env where
  "unattended_env = sample_env\<lparr>stdin_line := None\<rparr>"

definition silent_env :: env where
  "silent_env = sample_env\<lparr>rag_query := (\<lambda>q k. Inr [])\<rparr>"

text \<open>The same world with a model whose generation runs out of memory.\<close>

definition failing_env :: env where
  "failing_env = sample_env\<lparr>lm_generate := (\<lambda>m inputs budget pad. Inl (Raised ''OutOfMemoryError''))\<rparr>"

text \<open>
  A world with a trained checkpoint on disk, beside it an archive of the same name, and
  an adapter configuration that names no base model.
\<close>

definition checkpoint_tree :: "fsnode list" where
  "checkpoint_tree =
     [Dir ''glayout_llm_checkpointsmstrl''
        [Dir ''checkpoint-bestperf'' [File ''adapter_config.json''],
         File ''checkpoint-bestperf.zip'']]"

definition archive_env :: env where
  "archive_env = sample_env\<lparr>base_dir := checkpoint_tree\<rparr>"

definition restored_env :: env where
  "restored_env =
     sample_env\<lparr>base_dir := [Dir ''checkpoint-bestperf'' [File ''adapter_config.json'']],
                json_load := (\<lambda>file. Inr (PyDict [(''peft_type'', PyStr ''LORA'')]))\<rparr>"

definition no_flags :: globals where
  "no_flags = \<lparr>microsoft_model = False, mistral_model = False\<rparr>"

definition sample_session :: "bool \<Rightarrow> session" where
  "sample_session converse_arg =
     clear_history sample_env
       \<lparr>converse_mode = converse_arg, accesstoken = ''hf_token'',
        model = \<lparr>lm_source = Hub ''mistralai/Mistral-7B-Instruct-v0.3'',
                 lora_targets = Some [''q_proj'', ''k_proj'', ''v_proj''],
                 train_mode = False\<rparr>,
        tokenizer = \<lparr>tok_source = PyStr ''mistralai/Mistral-7B-Instruct-v0.3'',
                     pad_token = Some ''[PAD]''\<rparr>,
        device = ''cpu'', pastfirst = False, chat_history = []\<rparr>"


section \<open>Facts about slices\<close>

text \<open>
  \<^verbatim>\<open>xs[n:-1]\<close> is what is left of \<open>xs\<close> after its first \<open>n\<close> elements, without the
  last element of that rest.
\<close>

lemma py_slice_from_to_last: "py_slice xs (int n) (- 1) = butlast (drop n xs)"
proof (cases "n \<le> length xs")
  case True
  then have "py_bound (length xs) (int n) = n"
    by (simp add: py_bound_def)
  moreover have "py_bound (length xs) (- 1) = length xs - 1"
    by (simp add: py_bound_def) 
  ultimately show ?thesis
    by (simp add: py_slice_def butlast_conv_take)
next
  case False
  then have "py_bound (length xs) (int n) = length xs"
    by (simp add: py_bound_def)
  with False show ?thesis
    by (simp add: py_slice_def)
qed


section \<open>Facts about the session\<close>

text \<open>
  What one call does to each field of the session: the prompt step changes nothing but
  \<open>pastfirst\<close>, the turn step nothing but \<open>chat_history\<close>.
\<close>

lemma full_prompt_later:
  "pastfirst s \<Longrightarrow> generate_full_prompt env u s = (Inr u, s)"
  by (simp add: generate_full_prompt_def)

lemma full_prompt_first:
  "\<not> pastfirst s \<Longrightarrow> rag_query env u 1 = Inr (r # rs) \<Longrightarrow>
   generate_full_prompt env u s =
     (Inr (PREAMBLE @ (case r of None \<Rightarrow> [] | Some text \<Rightarrow> CONTEXT_NOTE @ text @ ''\<newline>'')
           @ CONVERT @ u), s\<lparr>pastfirst := True\<rparr>)"
  by (simp add: generate_full_prompt_def)

lemma full_prompt_frame:
  "chat_history (snd (generate_full_prompt env u s)) = chat_history s"
  "converse_mode (snd (generate_full_prompt env u s)) = converse_mode s"
  "model (snd (generate_full_prompt env u s)) = model s"
  "tokenizer (snd (generate_full_prompt env u s)) = tokenizer s"
  by (simp_all add: generate_full_prompt_def split: sum.splits list.splits)

lemma full_prompt_Inr_pastfirst:
  "fst (generate_full_prompt env u s) = Inr p \<Longrightarrow> pastfirst (snd (generate_full_prompt env u s))"
  by (auto simp: generate_full_prompt_def split: if_splits sum.splits list.splits)

lemma turn_frame:
  "pastfirst (snd (generate_turn env p s)) = pastfirst s"
  "converse_mode (snd (generate_turn env p s)) = converse_mode s"
  "model (snd (generate_turn env p s)) = model s"
  "tokenizer (snd (generate_turn env p s)) = tokenizer s"
  by (simp_all add: generate_turn_def Let_def split: sum.splits)

lemma turn_history:
  "chat_history (snd (generate_turn env p s)) =
     chat_history s @ \<lparr>role = User, content = p\<rparr> #
       (case fst (generate_turn env p s) of
          Inl e \<Rightarrow> []
        | Inr response \<Rightarrow> [\<lparr>role = Assistant, content = response\<rparr>])"
  by (simp add: generate_turn_def Let_def split: sum.splits)

lemma generate_cases:
  "generate env u s =
     (case fst (generate_full_prompt env u (s\<lparr>model := (model s)\<lparr>train_mode := False\<rparr>\<rparr>)) of
        Inl e \<Rightarrow> (Inl e, snd (generate_full_prompt env u (s\<lparr>model := (model s)\<lparr>train_mode := False\<rparr>\<rparr>)))
      | Inr p \<Rightarrow> generate_turn env p
                  (snd (generate_full_prompt env u (s\<lparr>model := (model s)\<lparr>train_mode := False\<rparr>\<rparr>))))"
  by (simp add: generate_def split: prod.splits sum.splits)

lemma generate_later:
  "pastfirst s \<Longrightarrow>
   generate env u s = generate_turn env u (s\<lparr>model := (model s)\<lparr>train_mode := False\<rparr>\<rparr>)"
  by (simp add: generate_def full_prompt_later)

lemma generate_first:
  "\<not> pastfirst s \<Longrightarrow> rag_query env u 1 = Inr (r # rs) \<Longrightarrow>
   generate env u s =
     generate_turn env
       (PREAMBLE @ (case r of None \<Rightarrow> [] | Some text \<Rightarrow> CONTEXT_NOTE @ text @ ''\<newline>'')
        @ CONVERT @ u)
       (s\<lparr>model := (model s)\<lparr>train_mode := False\<rparr>, pastfirst := True\<rparr>)"
  by (simp add: generate_def full_prompt_first)

lemma generate_pastfirst_mono:
  "pastfirst s \<Longrightarrow> pastfirst (snd (generate env u s))"
  by (simp add: generate_later turn_frame)

lemma generate_converse_mode:
  "converse_mode (snd (generate env u s)) = converse_mode s"
  by (simp add: generate_cases turn_frame full_prompt_frame split: sum.splits)

lemma clear_history_fields:
  "converse_mode (clear_history env s) = converse_mode s"
  "pastfirst (clear_history env s) = converse_mode s"
  "model (clear_history env s) = model s"
  "tokenizer (clear_history env s) = tokenizer s"
  "chat_history (clear_history env s) =
     (if converse_mode s then []
      else [\<lparr>role = User, content = get_glayout_context env\<rparr>,
            \<lparr>role = Assistant, content = RESPONSE\<rparr>])"
  by (simp_all add: clear_history_def Let_def)

lemma generates_pastfirst:
  "pastfirst s \<Longrightarrow> pastfirst (calls env (map Generate us) s)"
  unfolding calls_def
  by (induction us arbitrary: s) (simp_all add: generate_pastfirst_mono)

lemma calls_converse_mode:
  "converse_mode (calls env cs s) = converse_mode s"
  unfolding calls_def
proof (induction cs arbitrary: s)
  case Nil
  show ?case by simp
next
  case (Cons c cs)
  show ?case
    by (cases c) (simp_all add: Cons.IH generate_converse_mode clear_history_fields)
qed

lemma calls_pastfirst:
  "pastfirst s \<Longrightarrow> converse_mode s \<or> Clear_history \<notin> set cs \<Longrightarrow> pastfirst (calls env cs s)"
  unfolding calls_def
proof (induction cs arbitrary: s)
  case Nil
  then show ?case by simp
next
  case (Cons c cs)
  show ?case
  proof (cases c)
    case (Generate u)
    with Cons.prems have "pastfirst (call_session env c s)"
      and "converse_mode (call_session env c s) \<or> Clear_history \<notin> set cs"
      by (auto simp: generate_pastfirst_mono generate_converse_mode)
    then show ?thesis
      using Cons.IH by simp
  next
    case Clear_history
    with Cons.prems have "pastfirst (call_session env c s)"
      and "converse_mode (call_session env c s) \<or> Clear_history \<notin> set cs"
      by (auto simp: clear_history_fields)
    then show ?thesis
      using Cons.IH by simp
  qed
qed

lemma init_session:
  assumes "init env g model_arg token converse_arg = (Inr s0, g1)"
  shows "\<exists>s. s0 = clear_history env s \<and> converse_mode s = converse_arg"
  using assms
  by (auto simp: init_def Let_def split: prod.splits sum.splits option.splits)

section \<open>Evaluating the sample environments\<close>

lemmas session_eval =
  generate_def generate_full_prompt_def generate_turn_def clear_history_def
  sample_session_def sample_env_def failing_env_def py_slice_def py_bound_def
  show_tokens_def Let_def

lemma sample_first_turn:
  "generate sample_env ''inverter'' (sample_session False) =
     (Inr ''special: ca'',
      (sample_session False)
        \<lparr>pastfirst := True,
         chat_history := chat_history (sample_session False) @
           [\<lparr>role = User,
             content = PREAMBLE @ CONTEXT_NOTE @ ''ctx-A'' @ ''\<newline>'' @ CONVERT @ ''inverter''\<rparr>,
            \<lparr>role = Assistant, content = ''special: ca''\<rparr>]\<rparr>)"
  by (simp add: session_eval)

lemma failing_first_turn:
  "generate failing_env ''inverter'' (sample_session False) =
     (Inl (Raised ''OutOfMemoryError''),
      (sample_session False)
        \<lparr>pastfirst := True,
         chat_history := chat_history (sample_session False) @
           [\<lparr>role = User,
             content = PREAMBLE @ CONTEXT_NOTE @ ''ctx-A'' @ ''\<newline>'' @ CONVERT @ ''inverter''\<rparr>]\<rparr>)"
  by (simp add: session_eval)


section \<open>History growth (claim C1)\<close>

text \<open>
  Claim C1 says that a call of \<open>generate\<close> whose generation step raises leaves the
  length of the history unchanged. It does not: the user message of line 401 is
  appended before the model is asked, and nothing removes it. With a model that runs
  out of memory, a history of two messages has three after the failed call.
\<close>

theorem generate_failed_counterexample:
  "fst (generate failing_env ''inverter'' (sample_session False)) = Inl (Raised ''OutOfMemoryError'') \<and>
   length (chat_history (sample_session False)) = 2 \<and>
   length (chat_history (snd (generate failing_env ''inverter'' (sample_session False)))) = 3"
  by (simp add: failing_first_turn) (simp add: session_eval)

text \<open>
  Claim C1, amended. A successful call of \<open>generate\<close> extends the history by exactly
  two messages, the user message carrying the prompt of the turn and then the assistant
  message carrying the returned text. A call whose prompt was built and rendered and
  whose generation step then raises returns that error and extends the history by
  exactly one message, the user message of the turn.
\<close>

theorem generate_history_growth:
  "(generate env u s = (Inr response, s') \<longrightarrow>
      (\<exists>p. chat_history s' =
             chat_history s @ [\<lparr>role = User, content = p\<rparr>,
                               \<lparr>role = Assistant, content = response\<rparr>]) \<and>
      length (chat_history s') = length (chat_history s) + 2) \<and>
   (fst (generate_full_prompt env u (s\<lparr>model := (model s)\<lparr>train_mode := False\<rparr>\<rparr>)) = Inr p \<and>
    apply_chat_template env (tokenizer s)
      (chat_history s @ [\<lparr>role = User, content = p\<rparr>]) = Inr inputs \<and>
    lm_generate env ((model s)\<lparr>train_mode := False\<rparr>) inputs 1024 (pad_token (tokenizer s)) = Inl e \<longrightarrow>
      fst (generate env u s) = Inl e \<and>
      chat_history (snd (generate env u s)) = chat_history s @ [\<lparr>role = User, content = p\<rparr>] \<and>
      length (chat_history (snd (generate env u s))) = length (chat_history s) + 1)"
proof (intro conjI impI)
  let ?s = "s\<lparr>model := (model s)\<lparr>train_mode := False\<rparr>\<rparr>"
  let ?fp = "generate_full_prompt env u ?s"
  assume ok: "generate env u s = (Inr response, s')"
  then obtain p where p: "fst ?fp = Inr p"
    by (cases "fst ?fp") (simp_all add: generate_cases)
  with ok have turn: "generate_turn env p (snd ?fp) = (Inr response, s')"
    by (simp add: generate_cases)
  have "chat_history s' =
          chat_history s @ [\<lparr>role = User, content = p\<rparr>, \<lparr>role = Assistant, content = response\<rparr>]"
    using turn_history [of env p "snd ?fp"] turn by (simp add: full_prompt_frame)
  then show "\<exists>p. chat_history s' =
          chat_history s @ [\<lparr>role = User, content = p\<rparr>, \<lparr>role = Assistant, content = response\<rparr>]"
    and "length (chat_history s') = length (chat_history s) + 2"
    by auto
next
  let ?s = "s\<lparr>model := (model s)\<lparr>train_mode := False\<rparr>\<rparr>"
  let ?fp = "generate_full_prompt env u ?s"
  assume raised: "fst ?fp = Inr p \<and>
    apply_chat_template env (tokenizer s)
      (chat_history s @ [\<lparr>role = User, content = p\<rparr>]) = Inr inputs \<and>
    lm_generate env ((model s)\<lparr>train_mode := False\<rparr>) inputs 1024 (pad_token (tokenizer s)) = Inl e"
  then have gen: "generate env u s = generate_turn env p (snd ?fp)"
    by (simp add: generate_cases)
  have turn: "generate_turn env p (snd ?fp) =
          (Inl e, (snd ?fp)\<lparr>chat_history := chat_history s @ [\<lparr>role = User, content = p\<rparr>]\<rparr>)"
    using raised by (simp add: generate_turn_def full_prompt_frame)
  show "fst (generate env u s) = Inl e"
    and "chat_history (snd (generate env u s)) = chat_history s @ [\<lparr>role = User, content = p\<rparr>]"
    and "length (chat_history (snd (generate env u s))) = length (chat_history s) + 1"
    by (simp_all add: gen turn)
qed

text \<open>
  Both halves at work: the sample session answers its first turn and has two messages
  more; with the failing model the same call returns the error and has one more.
\<close>

theorem generate_history_growth_witness:
  "generate sample_env ''inverter'' (sample_session False) =
     (Inr ''special: ca'', snd (generate sample_env ''inverter'' (sample_session False))) \<and>
   length (chat_history (snd (generate sample_env ''inverter'' (sample_session False)))) =
     length (chat_history (sample_session False)) + 2 \<and>
   lm_generate failing_env ((model (sample_session False))\<lparr>train_mode := False\<rparr>) [1, 1, 1] 1024
     (pad_token (tokenizer (sample_session False))) = Inl (Raised ''OutOfMemoryError'') \<and>
   fst (generate failing_env ''inverter'' (sample_session False)) = Inl (Raised ''OutOfMemoryError'') \<and>
   length (chat_history (snd (generate failing_env ''inverter'' (sample_session False)))) =
     length (chat_history (sample_session False)) + 1"
proof -
  let ?s = "sample_session False"
  let ?p = "PREAMBLE @ CONTEXT_NOTE @ ''ctx-A'' @ ''\<newline>'' @ CONVERT @ ''inverter''"
  have ok: "generate sample_env ''inverter'' ?s =
      (Inr ''special: ca'', snd (generate sample_env ''inverter'' ?s))"
    by (simp add: sample_first_turn)
  have prompt: "fst (generate_full_prompt failing_env ''inverter''
                  (?s\<lparr>model := (model ?s)\<lparr>train_mode := False\<rparr>\<rparr>)) = Inr ?p"
    by (simp add: session_eval)
  have template: "apply_chat_template failing_env (tokenizer ?s)
      (chat_history ?s @ [\<lparr>role = User, content = ?p\<rparr>]) = Inr [1, 1, 1]"
    by (simp add: session_eval)
  have raised: "lm_generate failing_env ((model ?s)\<lparr>train_mode := False\<rparr>) [1, 1, 1] 1024
      (pad_token (tokenizer ?s)) = Inl (Raised ''OutOfMemoryError'')"
    by (simp add: session_eval)
  show ?thesis
    using generate_history_growth
            [of sample_env "''inverter''" ?s "''special: ca''"
                "snd (generate sample_env ''inverter'' ?s)"]
          generate_history_growth
            [of failing_env "''inverter''" ?s _ _ ?p "[1, 1, 1]" "Raised ''OutOfMemoryError''"]
          ok prompt template raised
    by simp
qed

section \<open>Constructing the sample session\<close>

text \<open>
  In the sample world the constructor finds no checkpoint, trains, and ends in the
  sample session.
\<close>

lemma normalise_7B: "lower (strip '' 7B '') = ''7b''"
  by (simp add: strip_def lower_def lower_char_def py_isspace_def char_of_eq_iff)

lemma resolve_7B:
  "resolve env '' 7B '' =
     Inr \<lparr>modelname = ''mistralai/Mistral-7B-Instruct-v0.3'',
          target_modules = [''q_proj'', ''k_proj'', ''v_proj''], console = []\<rparr>"
  by (simp add: resolve_def normalise_7B)

lemma resolve_idem: "resolve env (lower (strip '' 7B '')) = resolve env '' 7B ''"
  by (simp add: resolve_def strip_def lower_def lower_char_def py_isspace_def char_of_eq_iff)

lemma sample_init:
  "init sample_env no_flags '' 7B '' ''hf_token'' converse_arg =
     (Inr (sample_session converse_arg), \<lparr>microsoft_model = False, mistral_model = True\<rparr>)"
  by (simp add: init_def init_model_def select_checkpoint_def glob_checkpoints.simps
        run_full_SFT_training_def load_model_and_tokenizer_def resolve_idem resolve_7B
        select_collator_def output_dir_def no_flags_def sample_env_def sample_session_def)


section \<open>Resetting the history (claim C6)\<close>

text \<open>
  Claim C6. For every session \<open>s\<close>, \<open>clear_history\<close> leaves the history and the
  first-turn flag exactly as a freshly constructed session with the same
  \<open>converse_mode\<close> has them: the synthetic user message with the Glayout context
  followed by the fixed assistant acknowledgement and the flag false when
  \<open>converse_mode\<close> is off, the empty history and the flag true when it is on. The
  model and the tokenizer stay the objects they were, a second reset changes nothing,
  and of the outside world the reset reads the Glayout context only: no loader is
  called.
\<close>

theorem clear_history_reseeds:
  "(init env g model_arg token (converse_mode s) = (Inr s0, g1) \<longrightarrow>
      chat_history (clear_history env s) = chat_history s0 \<and>
      pastfirst (clear_history env s) = pastfirst s0) \<and>
   chat_history (clear_history env s) =
     (if converse_mode s then []
      else [\<lparr>role = User, content = get_glayout_context env\<rparr>,
            \<lparr>role = Assistant, content = RESPONSE\<rparr>]) \<and>
   pastfirst (clear_history env s) = converse_mode s \<and>
   model (clear_history env s) = model s \<and>
   tokenizer (clear_history env s) = tokenizer s \<and>
   clear_history env (clear_history env s) = clear_history env s \<and>
   (get_glayout_context env' = get_glayout_context env \<longrightarrow>
      clear_history env' s = clear_history env s)"
proof (intro conjI impI)
  assume "init env g model_arg token (converse_mode s) = (Inr s0, g1)"
  then obtain s' where s0: "s0 = clear_history env s'" and cm: "converse_mode s' = converse_mode s"
    using init_session by blast
  show "chat_history (clear_history env s) = chat_history s0"
    and "pastfirst (clear_history env s) = pastfirst s0"
    by (simp_all add: s0 clear_history_fields cm)
next
  show "clear_history env (clear_history env s) = clear_history env s"
    by (simp add: clear_history_def Let_def)
next
  assume "get_glayout_context env' = get_glayout_context env"
  then show "clear_history env' s = clear_history env s"
    by (simp add: clear_history_def Let_def)
qed (simp_all add: clear_history_fields)

text \<open>
  After a first turn in the sample session, a reset gives back the history and the flag
  of the session the constructor built.
\<close>

theorem clear_history_reseeds_witness:
  "init sample_env no_flags '' 7B '' ''hf_token'' False =
     (Inr (sample_session False), \<lparr>microsoft_model = False, mistral_model = True\<rparr>) \<and>
   chat_history (clear_history sample_env
                   (snd (generate sample_env ''inverter'' (sample_session False)))) =
     chat_history (sample_session False) \<and>
   pastfirst (clear_history sample_env
                (snd (generate sample_env ''inverter'' (sample_session False)))) =
     pastfirst (sample_session False) \<and>
   get_glayout_context failing_env = get_glayout_context sample_env \<and>
   clear_history failing_env (snd (generate sample_env ''inverter'' (sample_session False))) =
     clear_history sample_env (snd (generate sample_env ''inverter'' (sample_session False)))"
proof -
  let ?s = "snd (generate sample_env ''inverter'' (sample_session False))"
  have cm: "converse_mode ?s = False"
    by (simp add: generate_converse_mode sample_session_def clear_history_fields)
  have ctx: "get_glayout_context failing_env = get_glayout_context sample_env"
    by (simp add: failing_env_def)
  show ?thesis
    using clear_history_reseeds
            [of sample_env no_flags "'' 7B ''" "''hf_token''" ?s "sample_session False"
                "\<lparr>microsoft_model = False, mistral_model = True\<rparr>" failing_env]
          sample_init [of False] cm ctx
    by simp
qed


section \<open>The first-turn flag never falls back (claim C7)\<close>

text \<open>
  Claim C7. Once \<open>pastfirst\<close> is true it stays true under every sequence of
  \<open>generate\<close> calls, whatever their outcomes. Under a sequence of calls that mixes
  \<open>generate\<close> and \<open>clear_history\<close>, the flag can be false afterwards only if the
  sequence contains a \<open>clear_history\<close> and \<open>converse_mode\<close> is off; a reset sets the
  flag to the value of \<open>converse_mode\<close>. A session constructed with \<open>converse_mode\<close>
  on has the flag true after every sequence of calls, the empty one included.
\<close>

theorem pastfirst_monotonic:
  "(pastfirst s \<longrightarrow> pastfirst (calls env (map Generate us) s)) \<and>
   (pastfirst s \<and> \<not> pastfirst (calls env cs s) \<longrightarrow>
      Clear_history \<in> set cs \<and> \<not> converse_mode s) \<and>
   pastfirst (clear_history env s) = converse_mode s \<and>
   (init env g model_arg token True = (Inr s0, g1) \<longrightarrow> pastfirst (calls env cs s0))"
proof (intro conjI impI)
  assume "pastfirst s"
  then show "pastfirst (calls env (map Generate us) s)"
    by (rule generates_pastfirst)
next
  assume "pastfirst s \<and> \<not> pastfirst (calls env cs s)"
  then show "Clear_history \<in> set cs" and "\<not> converse_mode s"
    using calls_pastfirst [of s cs env] by blast+
next
  show "pastfirst (clear_history env s) = converse_mode s"
    by (simp add: clear_history_fields)
next
  assume "init env g model_arg token True = (Inr s0, g1)"
  then obtain s' where "s0 = clear_history env s'" and "converse_mode s' = True"
    using init_session by blast
  then have "pastfirst s0" and "converse_mode s0"
    by (simp_all add: clear_history_fields)
  then show "pastfirst (calls env cs s0)"
    by (simp add: calls_pastfirst)
qed

text \<open>
  In the sample session: the flag is true after the first turn and after two more
  turns, a reset returns it to false as \<open>converse_mode\<close> is off, and the session
  constructed with \<open>converse_mode\<close> on keeps it true across a reset.
\<close>

theorem pastfirst_monotonic_witness:
  "pastfirst (snd (generate sample_env ''inverter'' (sample_session False))) \<and>
   pastfirst (calls sample_env (map Generate [''nand gate'', ''opamp''])
                (snd (generate sample_env ''inverter'' (sample_session False)))) \<and>
   \<not> pastfirst (calls sample_env [Generate ''nand gate'', Clear_history]
                  (snd (generate sample_env ''inverter'' (sample_session False)))) \<and>
   Clear_history \<in> set [Generate ''nand gate'', Clear_history] \<and>
   \<not> converse_mode (snd (generate sample_env ''inverter'' (sample_session False))) \<and>
   init sample_env no_flags '' 7B '' ''hf_token'' True =
     (Inr (sample_session True), \<lparr>microsoft_model = False, mistral_model = True\<rparr>) \<and>
   pastfirst (calls sample_env [Generate ''nand gate'', Clear_history, Generate ''opamp'']
                (sample_session True))"
proof -
  let ?s = "snd (generate sample_env ''inverter'' (sample_session False))"
  have past: "pastfirst ?s"
    by (simp add: sample_first_turn)
  have cm: "\<not> converse_mode ?s"
    by (simp add: generate_converse_mode sample_session_def clear_history_fields)
  have reset: "\<not> pastfirst (calls sample_env [Generate ''nand gate'', Clear_history] ?s)"
    by (simp add: calls_def clear_history_fields generate_converse_mode sample_session_def)
  show ?thesis
    using pastfirst_monotonic
            [of ?s sample_env "[''nand gate'', ''opamp'']" "[Generate ''nand gate'', Clear_history]"
                no_flags "'' 7B ''" "''hf_token''" "sample_session True"
                "\<lparr>microsoft_model = False, mistral_model = True\<rparr>"]
          pastfirst_monotonic
            [of ?s sample_env "[]" "[Generate ''nand gate'', Clear_history, Generate ''opamp'']"
                no_flags "'' 7B ''" "''hf_token''" "sample_session True"
                "\<lparr>microsoft_model = False, mistral_model = True\<rparr>"]
          sample_init [of True] past cm reset
    by simp
qed

section \<open>The prompt of a turn (claims C3 and C10)\<close>

text \<open>
  A turn never consults the retriever, and the first message it appends is the user
  message with the prompt it was given.
\<close>

lemma turn_ignores_retriever:
  "generate_turn (env\<lparr>rag_query := q\<rparr>) p s = generate_turn env p s"
  by (simp add: generate_turn_def Let_def split: sum.splits)

lemma turn_first_message:
  "take (Suc (length (chat_history s))) (chat_history (snd (generate_turn env p s))) =
     chat_history s @ [\<lparr>role = User, content = p\<rparr>]"
  by (simp add: turn_history)

text \<open>
  Line 393 indexes the answer of the retriever at 0 before line 394 looks at the
  entry: an answer that is the empty sequence raises, before the flag is set and
  before anything is appended.
\<close>

lemma empty_retrieval_raises:
  assumes "\<not> pastfirst s" and "rag_query env u 1 = Inr []"
  shows "generate env u s = (Inl IndexError, s\<lparr>model := (model s)\<lparr>train_mode := False\<rparr>\<rparr>)"
  using assms by (simp add: generate_def generate_full_prompt_def)

lemma silent_init:
  "init silent_env no_flags '' 7B '' ''hf_token'' False =
     (Inr (sample_session False), \<lparr>microsoft_model = False, mistral_model = True\<rparr>)"
  by (simp add: init_def init_model_def select_checkpoint_def glob_checkpoints.simps
        run_full_SFT_training_def load_model_and_tokenizer_def resolve_idem resolve_7B
        select_collator_def output_dir_def no_flags_def silent_env_def sample_env_def
        sample_session_def clear_history_def)

text \<open>
  Claim C3 says that a retriever without a result for the first-turn query is not
  fatal. A retriever that returns up to one snippet may return none: in a world whose
  retriever answers with the empty sequence, the first call on a freshly constructed
  session raises \<open>IndexError\<close>, appends nothing and leaves the session before its
  first turn, so the call after it is a first turn again.
\<close>

theorem empty_retrieval_counterexample:
  "init silent_env no_flags '' 7B '' ''hf_token'' False =
     (Inr (sample_session False), \<lparr>microsoft_model = False, mistral_model = True\<rparr>) \<and>
   rag_query silent_env ''inverter'' 1 = Inr [] \<and>
   fst (generate silent_env ''inverter'' (sample_session False)) = Inl IndexError \<and>
   chat_history (snd (generate silent_env ''inverter'' (sample_session False))) =
     chat_history (sample_session False) \<and>
   \<not> pastfirst (snd (generate silent_env ''inverter'' (sample_session False)))"
proof -
  have fresh: "\<not> pastfirst (sample_session False)"
    by (simp add: sample_session_def clear_history_fields)
  have silent: "rag_query silent_env ''inverter'' 1 = Inr []"
    by (simp add: silent_env_def)
  note raised = empty_retrieval_raises [OF fresh silent]
  have error: "fst (generate silent_env ''inverter'' (sample_session False)) = Inl IndexError"
    and history: "chat_history (snd (generate silent_env ''inverter'' (sample_session False))) =
      chat_history (sample_session False)"
    and flag: "\<not> pastfirst (snd (generate silent_env ''inverter'' (sample_session False)))"
    by (simp_all add: raised fresh)
  show ?thesis
    using silent_init silent error history flag by (intro conjI)
qed

text \<open>
  Claim C3, amended. Let \<open>s0\<close> be a session constructed with \<open>converse_mode\<close> off, and
  let the retriever answer the query \<open>u\<close> with a sequence that has a first entry
  \<open>r\<close>. The first call \<open>generate u\<close> then runs its turn with the prompt made of the fixed preamble,
  then, when \<open>r\<close> is a text, the context note and that text on a line of its own, then
  the conversion instruction followed by \<open>u\<close>; this prompt is the user message the call
  appends to the history it renders for the model. When \<open>r\<close> is \<open>None\<close> the call
  is the same turn with the preamble and the instruction only: no error comes from the
  missing result. After that first call and any number of further \<open>generate\<close> calls,
  whatever their outcomes, a call \<open>generate v\<close> runs its turn with \<open>v\<close> itself, appends
  \<open>v\<close> unchanged as the user message, and does the same whatever the retriever would
  answer.
\<close>

theorem first_turn_augmentation:
  assumes "init env g model_arg token False = (Inr s0, g1)"
    and "rag_query env u 1 = Inr (r # rs)"
  shows "generate env u s0 =
           generate_turn env
             (PREAMBLE
              @ (case r of None \<Rightarrow> [] | Some text \<Rightarrow> CONTEXT_NOTE @ text @ ''\<newline>'')
              @ CONVERT @ u)
             (s0\<lparr>model := (model s0)\<lparr>train_mode := False\<rparr>, pastfirst := True\<rparr>) \<and>
         take (Suc (length (chat_history s0))) (chat_history (snd (generate env u s0))) =
           chat_history s0 @
             [\<lparr>role = User,
               content = PREAMBLE
                 @ (case r of None \<Rightarrow> [] | Some text \<Rightarrow> CONTEXT_NOTE @ text @ ''\<newline>'')
                 @ CONVERT @ u\<rparr>] \<and>
         (r = None \<longrightarrow>
            generate env u s0 =
              generate_turn env (PREAMBLE @ CONVERT @ u)
                (s0\<lparr>model := (model s0)\<lparr>train_mode := False\<rparr>, pastfirst := True\<rparr>)) \<and>
         (\<forall>us v q.
            generate env v (calls env (map Generate us) (snd (generate env u s0))) =
              generate_turn env v
                ((calls env (map Generate us) (snd (generate env u s0)))
                   \<lparr>model := (model (calls env (map Generate us) (snd (generate env u s0))))
                               \<lparr>train_mode := False\<rparr>\<rparr>) \<and>
            take (Suc (length (chat_history (calls env (map Generate us) (snd (generate env u s0))))))
                 (chat_history
                    (snd (generate env v (calls env (map Generate us) (snd (generate env u s0)))))) =
              chat_history (calls env (map Generate us) (snd (generate env u s0))) @
                [\<lparr>role = User, content = v\<rparr>] \<and>
            generate (env\<lparr>rag_query := q\<rparr>) v
                (calls env (map Generate us) (snd (generate env u s0))) =
              generate env v (calls env (map Generate us) (snd (generate env u s0))))"
proof -
  let ?first = "PREAMBLE
        @ (case r of None \<Rightarrow> [] | Some text \<Rightarrow> CONTEXT_NOTE @ text @ ''\<newline>'')
        @ CONVERT @ u"
  let ?s1 = "s0\<lparr>model := (model s0)\<lparr>train_mode := False\<rparr>, pastfirst := True\<rparr>"
  obtain s' where "s0 = clear_history env s'" and "converse_mode s' = False"
    using assms(1) init_session by blast
  then have fresh: "\<not> pastfirst s0"
    by (simp add: clear_history_fields)
  have gen: "generate env u s0 = generate_turn env ?first ?s1"
    using fresh assms(2) by (rule generate_first)
  have msg: "take (Suc (length (chat_history s0))) (chat_history (snd (generate env u s0))) =
      chat_history s0 @ [\<lparr>role = User, content = ?first\<rparr>]"
    using turn_first_message [of ?s1 env ?first] by (simp add: gen)
  have past: "pastfirst (snd (generate env u s0))"
    by (simp add: gen turn_frame)
  have later: "generate env v s = generate_turn env v (s\<lparr>model := (model s)\<lparr>train_mode := False\<rparr>\<rparr>) \<and>
      take (Suc (length (chat_history s))) (chat_history (snd (generate env v s))) =
        chat_history s @ [\<lparr>role = User, content = v\<rparr>] \<and>
      generate (env\<lparr>rag_query := q\<rparr>) v s = generate env v s"
    if "s = calls env (map Generate us) (snd (generate env u s0))" for us v q s
  proof -
    have p: "pastfirst s"
      unfolding that using past by (rule generates_pastfirst)
    have g: "generate env v s = generate_turn env v (s\<lparr>model := (model s)\<lparr>train_mode := False\<rparr>\<rparr>)"
      using p by (rule generate_later)
    have "take (Suc (length (chat_history s))) (chat_history (snd (generate env v s))) =
        chat_history s @ [\<lparr>role = User, content = v\<rparr>]"
      using turn_first_message [of "s\<lparr>model := (model s)\<lparr>train_mode := False\<rparr>\<rparr>" env v]
      by (simp add: g)
    moreover have "generate (env\<lparr>rag_query := q\<rparr>) v s = generate env v s"
      using p by (simp add: generate_later turn_ignores_retriever)
    ultimately show ?thesis
      using g by simp
  qed
  have none: "r = None \<longrightarrow> generate env u s0 = generate_turn env (PREAMBLE @ CONVERT @ u) ?s1"
    using gen by auto
  show ?thesis
    using gen msg none later by blast
qed

text \<open>
  The scenario of the specification in the sample world: the first prompt for
  \<^verbatim>\<open>inverter\<close> carries the preamble and \<^verbatim>\<open>ctx-A\<close>, the second call passes
  \<^verbatim>\<open>nand gate\<close> as it is, and a first call for which the retriever has nothing
  completes with the preamble and the instruction.
\<close>

theorem first_turn_augmentation_witness:
  "init sample_env no_flags '' 7B '' ''hf_token'' False =
     (Inr (sample_session False), \<lparr>microsoft_model = False, mistral_model = True\<rparr>) \<and>
   rag_query sample_env ''inverter'' 1 = Inr [Some ''ctx-A''] \<and>
   take (Suc (length (chat_history (sample_session False))))
        (chat_history (snd (generate sample_env ''inverter'' (sample_session False)))) =
     chat_history (sample_session False) @
       [\<lparr>role = User,
         content = PREAMBLE @ CONTEXT_NOTE @ ''ctx-A'' @ ''\<newline>'' @ CONVERT @ ''inverter''\<rparr>] \<and>
   take (Suc (length (chat_history (snd (generate sample_env ''inverter'' (sample_session False))))))
        (chat_history (snd (generate sample_env ''nand gate''
                              (snd (generate sample_env ''inverter'' (sample_session False)))))) =
     chat_history (snd (generate sample_env ''inverter'' (sample_session False))) @
       [\<lparr>role = User, content = ''nand gate''\<rparr>] \<and>
   rag_query sample_env ''opamp'' 1 = Inr [None] \<and>
   generate sample_env ''opamp'' (sample_session False) =
     generate_turn sample_env (PREAMBLE @ CONVERT @ ''opamp'')
       ((sample_session False)
          \<lparr>model := (model (sample_session False))\<lparr>train_mode := False\<rparr>, pastfirst := True\<rparr>) \<and>
   fst (generate sample_env ''opamp'' (sample_session False)) = Inr ''special: ca''"
proof -
  let ?s0 = "sample_session False"
  let ?s1 = "snd (generate sample_env ''inverter'' ?s0)"
  have built: "init sample_env no_flags '' 7B '' ''hf_token'' False =
      (Inr ?s0, \<lparr>microsoft_model = False, mistral_model = True\<rparr>)"
    by (rule sample_init)
  have hit: "rag_query sample_env ''inverter'' 1 = Inr [Some ''ctx-A'']"
    by (simp add: sample_env_def)
  have miss: "rag_query sample_env ''opamp'' 1 = Inr [None]"
    by (simp add: sample_env_def)
  note with_context =
    first_turn_augmentation [OF built hit, unfolded option.case append_assoc]
  note without_context = first_turn_augmentation [OF built miss]
  have first: "take (Suc (length (chat_history ?s0))) (chat_history ?s1) =
      chat_history ?s0 @
        [\<lparr>role = User,
          content = PREAMBLE @ CONTEXT_NOTE @ ''ctx-A'' @ ''\<newline>'' @ CONVERT @ ''inverter''\<rparr>]"
    using with_context by blast
  have "\<forall>us v. take (Suc (length (chat_history (calls sample_env (map Generate us) ?s1))))
          (chat_history (snd (generate sample_env v (calls sample_env (map Generate us) ?s1)))) =
        chat_history (calls sample_env (map Generate us) ?s1) @ [\<lparr>role = User, content = v\<rparr>]"
    using with_context by blast
  from this [rule_format, of "[]" "''nand gate''"]
  have second: "take (Suc (length (chat_history ?s1)))
          (chat_history (snd (generate sample_env ''nand gate'' ?s1))) =
        chat_history ?s1 @ [\<lparr>role = User, content = ''nand gate''\<rparr>]"
    by (simp add: calls_def)
  have plain: "generate sample_env ''opamp'' ?s0 =
      generate_turn sample_env (PREAMBLE @ CONVERT @ ''opamp'')
        (?s0\<lparr>model := (model ?s0)\<lparr>train_mode := False\<rparr>, pastfirst := True\<rparr>)"
    using without_context by blast
  have completes: "fst (generate sample_env ''opamp'' ?s0) = Inr ''special: ca''"
    unfolding plain by (simp add: session_eval)
  show ?thesis
    using built hit first second miss plain completes by blast
qed

text \<open>
  Claim C10. On a session that has not passed its first turn, let the retriever answer
  and the prompt be rendered, and let the generation step raise \<open>e\<close>. Then \<open>generate\<close>
  returns \<open>e\<close> with \<open>pastfirst\<close> already true, the flag stays true under every
  further sequence of \<open>generate\<close> calls, and the retried call with the same input is a
  plain turn: it appends the input itself as user message, after the augmented user
  message that the failed call left in the history.
\<close>

theorem failed_first_turn_is_spent:
  assumes "\<not> pastfirst s"
    and "rag_query env u 1 = Inr (r # rs)"
    and "apply_chat_template env (tokenizer s)
           (chat_history s @
            [\<lparr>role = User,
              content = PREAMBLE
                @ (case r of None \<Rightarrow> [] | Some text \<Rightarrow> CONTEXT_NOTE @ text @ ''\<newline>'')
                @ CONVERT @ u\<rparr>]) = Inr inputs"
    and "lm_generate env ((model s)\<lparr>train_mode := False\<rparr>) inputs 1024
           (pad_token (tokenizer s)) = Inl e"
  shows "fst (generate env u s) = Inl e \<and>
         pastfirst (snd (generate env u s)) \<and>
         pastfirst (calls env (map Generate us) (snd (generate env u s))) \<and>
         generate env u (snd (generate env u s)) =
           generate_turn env u (snd (generate env u s)) \<and>
         take (length (chat_history s) + 2)
              (chat_history (snd (generate env u (snd (generate env u s))))) =
           chat_history s @
             [\<lparr>role = User,
               content = PREAMBLE
                 @ (case r of None \<Rightarrow> [] | Some text \<Rightarrow> CONTEXT_NOTE @ text @ ''\<newline>'')
                 @ CONVERT @ u\<rparr>,
              \<lparr>role = User, content = u\<rparr>]"
proof -
  let ?first = "PREAMBLE
        @ (case r of None \<Rightarrow> [] | Some text \<Rightarrow> CONTEXT_NOTE @ text @ ''\<newline>'')
        @ CONVERT @ u"
  let ?s1 = "s\<lparr>model := (model s)\<lparr>train_mode := False\<rparr>, pastfirst := True\<rparr>"
  let ?s2 = "?s1\<lparr>chat_history := chat_history s @ [\<lparr>role = User, content = ?first\<rparr>]\<rparr>"
  have gen: "generate env u s = generate_turn env ?first ?s1"
    using assms(1,2) by (rule generate_first)
  have turn: "generate_turn env ?first ?s1 = (Inl e, ?s2)"
    using assms(3,4) by (simp add: generate_turn_def)
  have failed: "generate env u s = (Inl e, ?s2)"
    by (simp add: gen turn)
  have past: "pastfirst (snd (generate env u s))"
    by (simp add: failed)
  have eval: "?s2\<lparr>model := (model ?s2)\<lparr>train_mode := False\<rparr>\<rparr> = ?s2"
    by simp
  have retry: "generate env u ?s2 = generate_turn env u ?s2"
    using generate_later [of ?s2 env u] by (simp only: eval) simp
  have "take (Suc (length (chat_history ?s2))) (chat_history (snd (generate_turn env u ?s2))) =
          chat_history ?s2 @ [\<lparr>role = User, content = u\<rparr>]"
    by (rule turn_first_message)
  then have hist: "take (length (chat_history s) + 2)
              (chat_history (snd (generate env u ?s2))) =
           chat_history s @ [\<lparr>role = User, content = ?first\<rparr>, \<lparr>role = User, content = u\<rparr>]"
    by (simp add: retry)
  show ?thesis
    using past generates_pastfirst [OF past, of env us] retry hist
    by (simp add: failed)
qed

text \<open>
  With the model that runs out of memory, the retried \<^verbatim>\<open>inverter\<close> is appended bare
  behind the augmented prompt of the failed first call.
\<close>

theorem failed_first_turn_is_spent_witness:
  "\<not> pastfirst (sample_session False) \<and>
   rag_query failing_env ''inverter'' 1 = Inr [Some ''ctx-A''] \<and>
   fst (generate failing_env ''inverter'' (sample_session False)) = Inl (Raised ''OutOfMemoryError'') \<and>
   pastfirst (snd (generate failing_env ''inverter'' (sample_session False))) \<and>
   take (length (chat_history (sample_session False)) + 2)
        (chat_history (snd (generate failing_env ''inverter''
                              (snd (generate failing_env ''inverter'' (sample_session False)))))) =
     chat_history (sample_session False) @
       [\<lparr>role = User,
         content = PREAMBLE @ CONTEXT_NOTE @ ''ctx-A'' @ ''\<newline>'' @ CONVERT @ ''inverter''\<rparr>,
        \<lparr>role = User, content = ''inverter''\<rparr>]"
proof -
  let ?s = "sample_session False"
  have first: "\<not> pastfirst ?s"
    by (simp add: sample_session_def clear_history_fields)
  have rag: "rag_query failing_env ''inverter'' 1 = Inr [Some ''ctx-A'']"
    by (simp add: failing_env_def sample_env_def)
  have template: "apply_chat_template failing_env (tokenizer ?s)
      (chat_history ?s @
       [\<lparr>role = User,
         content = PREAMBLE
           @ (case Some ''ctx-A'' of None \<Rightarrow> [] | Some text \<Rightarrow> CONTEXT_NOTE @ text @ ''\<newline>'')
           @ CONVERT @ ''inverter''\<rparr>]) = Inr [1, 1, 1]"
    by (simp add: session_eval)
  have raised: "lm_generate failing_env ((model ?s)\<lparr>train_mode := False\<rparr>) [1, 1, 1] 1024
      (pad_token (tokenizer ?s)) = Inl (Raised ''OutOfMemoryError'')"
    by (simp add: failing_env_def)
  show ?thesis
    using failed_first_turn_is_spent [OF first rag template raised, of "[]", unfolded option.case append_assoc]
          first rag
    by blast
qed


section \<open>Token budgets and decoding (claim C9)\<close>

text \<open>
  Claim C9. The session asks the model for at most 1024 new tokens and decodes, with
  special tokens kept, the output from the position after the rendered input up to but
  not including its last position. The plain-completion helper, called without a
  budget, asks for at most 1000 new tokens and decodes the whole output with special
  tokens skipped.
\<close>

theorem budgets_and_decoding:
  "(fst (generate_full_prompt env u (s\<lparr>model := (model s)\<lparr>train_mode := False\<rparr>\<rparr>)) = Inr p \<and>
    apply_chat_template env (tokenizer s)
      (chat_history s @ [\<lparr>role = User, content = p\<rparr>]) = Inr inputs \<and>
    lm_generate env ((model s)\<lparr>train_mode := False\<rparr>) inputs 1024 (pad_token (tokenizer s)) =
      Inr outputs \<longrightarrow>
      fst (generate env u s) =
        decode env (tokenizer s) (butlast (drop (length inputs) outputs)) False) \<and>
   (apply_chat_template env t [\<lparr>role = User, content = prompt\<rparr>] = Inr inputs' \<and>
    lm_generate env (m\<lparr>train_mode := False\<rparr>) inputs' 1000 None = Inr outputs' \<longrightarrow>
      run_llm_normal env m t dev prompt None = decode env t outputs' True)"
proof (intro conjI impI)
  let ?fp = "generate_full_prompt env u (s\<lparr>model := (model s)\<lparr>train_mode := False\<rparr>\<rparr>)"
  assume session: "fst ?fp = Inr p \<and>
    apply_chat_template env (tokenizer s)
      (chat_history s @ [\<lparr>role = User, content = p\<rparr>]) = Inr inputs \<and>
    lm_generate env ((model s)\<lparr>train_mode := False\<rparr>) inputs 1024 (pad_token (tokenizer s)) =
      Inr outputs"
  then have gen: "generate env u s = generate_turn env p (snd ?fp)"
    by (simp add: generate_cases)
  have "fst (generate_turn env p (snd ?fp)) =
      decode env (tokenizer s) (py_slice outputs (int (length inputs)) (- 1)) False"
    using session by (simp add: generate_turn_def full_prompt_frame Let_def split: sum.splits)
  then show "fst (generate env u s) =
      decode env (tokenizer s) (butlast (drop (length inputs) outputs)) False"
    by (simp add: gen py_slice_from_to_last)
next
  assume "apply_chat_template env t [\<lparr>role = User, content = prompt\<rparr>] = Inr inputs' \<and>
    lm_generate env (m\<lparr>train_mode := False\<rparr>) inputs' 1000 None = Inr outputs'"
  then show "run_llm_normal env m t dev prompt None = decode env t outputs' True"
    by (simp add: run_llm_normal_def)
qed

text \<open>
  The sample model answers differently for the two budgets and raises for any other;
  the session decodes \<open>[3, 1]\<close> out of \<open>[1, 1, 1, 3, 1, 2]\<close>, the helper the whole
  \<open>[1, 4]\<close>.
\<close>

theorem budgets_and_decoding_witness:
  "lm_generate sample_env ((model (sample_session False))\<lparr>train_mode := False\<rparr>) [1, 1, 1] 1024
     (pad_token (tokenizer (sample_session False))) = Inr [1, 1, 1, 3, 1, 2] \<and>
   fst (generate sample_env ''inverter'' (sample_session False)) =
     decode sample_env (tokenizer (sample_session False)) [3, 1] False \<and>
   lm_generate sample_env ((model (sample_session False))\<lparr>train_mode := False\<rparr>) [1] 1000 None =
     Inr [1, 4] \<and>
   run_llm_normal sample_env (model (sample_session False)) (tokenizer (sample_session False))
       ''cpu'' ''inverter'' None =
     decode sample_env (tokenizer (sample_session False)) [1, 4] True"
proof -
  let ?s = "sample_session False"
  let ?p = "PREAMBLE @ CONTEXT_NOTE @ ''ctx-A'' @ ''\<newline>'' @ CONVERT @ ''inverter''"
  have prompt: "fst (generate_full_prompt sample_env ''inverter''
                  (?s\<lparr>model := (model ?s)\<lparr>train_mode := False\<rparr>\<rparr>)) = Inr ?p"
    by (simp add: session_eval)
  have template: "apply_chat_template sample_env (tokenizer ?s)
      (chat_history ?s @ [\<lparr>role = User, content = ?p\<rparr>]) = Inr [1, 1, 1]"
    by (simp add: session_eval)
  have session: "lm_generate sample_env ((model ?s)\<lparr>train_mode := False\<rparr>) [1, 1, 1] 1024
      (pad_token (tokenizer ?s)) = Inr [1, 1, 1, 3, 1, 2]"
    by (simp add: sample_env_def)
  have template': "apply_chat_template sample_env (tokenizer ?s)
      [\<lparr>role = User, content = ''inverter''\<rparr>] = Inr [1]"
    by (simp add: sample_env_def)
  have plain: "lm_generate sample_env ((model ?s)\<lparr>train_mode := False\<rparr>) [1] 1000 None = Inr [1, 4]"
    by (simp add: sample_env_def)
  show ?thesis
    using budgets_and_decoding
            [of sample_env "''inverter''" ?s ?p "[1, 1, 1]" "[1, 1, 1, 3, 1, 2]"
                "tokenizer ?s" "''inverter''" "[1]" "model ?s" "[1, 4]" "''cpu''"]
          prompt template session template' plain
    by simp
qed

section \<open>The model catalogue (claim C4)\<close>

text \<open>The three entries, and a key the catalogue does not know.\<close>

lemmas string_eval = strip_def lower_def lower_char_def py_isspace_def char_of_eq_iff

lemma resolve_3b:
  "resolve env ''3b'' =
     Inr \<lparr>modelname = ''microsoft/Phi-3-mini-128k-instruct'',
          target_modules = [''qkv_proj''], console = []\<rparr>"
  by (simp add: resolve_def string_eval)

lemma resolve_7b:
  "resolve env ''7b'' =
     Inr \<lparr>modelname = ''mistralai/Mistral-7B-Instruct-v0.3'',
          target_modules = [''q_proj'', ''k_proj'', ''v_proj''], console = []\<rparr>"
  by (simp add: resolve_def string_eval)

lemma resolve_22b:
  "resolve env ''22b'' =
     (case stdin_line env of
        None \<Rightarrow> Inl EOFError
      | Some reply \<Rightarrow>
          Inr \<lparr>modelname = ''mistralai/Codestral-22B-v0.1'',
               target_modules = [''q_proj'', ''k_proj'', ''v_proj''],
               console =
                 [Print ''consider setting PYTORCH_CUDA_ALLOC_CONF=garbage_collection_threshold:0.6,max_split_size_mb:128'',
                  Input ''type anything to continue:'']\<rparr>)"
  by (simp add: resolve_def string_eval)

lemma normalise_22b: "lower (strip ''22b'') = ''22b''"
  by (simp add: string_eval)

text \<open>
  Claim C4 says that every recognised key resolves to an entry. The key \<^verbatim>\<open>22b\<close>
  is recognised, but its branch waits for a line of input at line 79: with standard
  input at its end the look-up raises \<open>EOFError\<close>, and \<open>load_model_and_tokenizer\<close>
  fails with it, the flags untouched.
\<close>

theorem resolve_unattended_counterexample:
  "lower (strip ''22b'') \<in> {''3b'', ''7b'', ''22b''} \<and>
   stdin_line unattended_env = None \<and>
   resolve unattended_env ''22b'' = Inl EOFError \<and>
   load_model_and_tokenizer unattended_env no_flags ''22b'' ''hf_token'' ''cpu'' =
     (Inl EOFError, no_flags)"
  by (simp add: normalise_22b load_model_and_tokenizer_def resolve_22b unattended_env_def)

text \<open>
  Claim C4, amended. A key that strips and lower-cases to \<^verbatim>\<open>3b\<close> or \<^verbatim>\<open>7b\<close>
  resolves to an entry whose list of adapter targets is not empty. A key that
  normalises to \<^verbatim>\<open>22b\<close> does so when the prompt of line 79 gets a line of input,
  and fails with \<open>EOFError\<close> when standard input is at its end. Any other key fails
  with the \<open>ValueError\<close> of line 81, and the answer depends on the normalised key
  only. The lists are kept per entry: the entry for \<^verbatim>\<open>3b\<close> has one target, the
  entries for \<^verbatim>\<open>7b\<close> and \<^verbatim>\<open>22b\<close> have the same three, and the one differs
  from the three in number and shares no name with them.
\<close>

theorem resolve_catalog:
  "(lower (strip model_arg) \<in> {''3b'', ''7b''} \<longrightarrow>
      (\<exists>entry. resolve env model_arg = Inr entry \<and> target_modules entry \<noteq> [])) \<and>
   (lower (strip model_arg) = ''22b'' \<and> stdin_line env \<noteq> None \<longrightarrow>
      (\<exists>entry. resolve env model_arg = Inr entry \<and> target_modules entry \<noteq> [])) \<and>
   (lower (strip model_arg) = ''22b'' \<and> stdin_line env = None \<longrightarrow>
      resolve env model_arg = Inl EOFError) \<and>
   (lower (strip model_arg) \<notin> {''3b'', ''7b'', ''22b''} \<longrightarrow>
      resolve env model_arg = Inl (ValueError ''a model must be provided from 3b, 7b, or 22b'')) \<and>
   (lower (strip model_arg) = lower (strip other) \<longrightarrow>
      resolve env model_arg = resolve env other) \<and>
   (\<forall>e3 e7 e22.
      resolve env ''3b'' = Inr e3 \<and> resolve env ''7b'' = Inr e7 \<and>
      resolve env ''22b'' = Inr e22 \<longrightarrow>
        target_modules e3 = [''qkv_proj''] \<and>
        target_modules e7 = [''q_proj'', ''k_proj'', ''v_proj''] \<and>
        target_modules e22 = [''q_proj'', ''k_proj'', ''v_proj''] \<and>
        length (target_modules e3) \<noteq> length (target_modules e7) \<and>
        length (target_modules e3) \<noteq> length (target_modules e22) \<and>
        set (target_modules e3) \<inter> set (target_modules e7) = {} \<and>
        set (target_modules e3) \<inter> set (target_modules e22) = {})"
proof (intro conjI impI allI)
  assume "lower (strip model_arg) \<in> {''3b'', ''7b''}"
  then show "\<exists>entry. resolve env model_arg = Inr entry \<and> target_modules entry \<noteq> []"
    by (auto simp: resolve_def)
next
  assume "lower (strip model_arg) = ''22b'' \<and> stdin_line env \<noteq> None"
  then show "\<exists>entry. resolve env model_arg = Inr entry \<and> target_modules entry \<noteq> []"
    by (auto simp: resolve_def)
next
  assume "lower (strip model_arg) = ''22b'' \<and> stdin_line env = None"
  then show "resolve env model_arg = Inl EOFError"
    by (simp add: resolve_def)
next
  assume "lower (strip model_arg) \<notin> {''3b'', ''7b'', ''22b''}"
  then show "resolve env model_arg =
      Inl (ValueError ''a model must be provided from 3b, 7b, or 22b'')"
    by (simp add: resolve_def)
next
  assume "lower (strip model_arg) = lower (strip other)"
  then show "resolve env model_arg = resolve env other"
    by (simp add: resolve_def)
next
  fix e3 e7 e22
  assume entries: "resolve env ''3b'' = Inr e3 \<and> resolve env ''7b'' = Inr e7 \<and>
      resolve env ''22b'' = Inr e22"
  then have e3: "target_modules e3 = [''qkv_proj'']"
    and e7: "target_modules e7 = [''q_proj'', ''k_proj'', ''v_proj'']"
    and e22: "target_modules e22 = [''q_proj'', ''k_proj'', ''v_proj'']"
    by (auto simp: resolve_3b resolve_7b resolve_22b split: option.splits)
  show "target_modules e3 = [''qkv_proj'']"
    and "target_modules e7 = [''q_proj'', ''k_proj'', ''v_proj'']"
    and "target_modules e22 = [''q_proj'', ''k_proj'', ''v_proj'']"
    and "length (target_modules e3) \<noteq> length (target_modules e7)"
    and "length (target_modules e3) \<noteq> length (target_modules e22)"
    and "set (target_modules e3) \<inter> set (target_modules e7) = {}"
    and "set (target_modules e3) \<inter> set (target_modules e22) = {}"
    by (simp_all add: e3 e7 e22)
qed

text \<open>
  In the sample world, where a line of input is at hand, \<^verbatim>\<open>" 7B "\<close> resolves like
  \<^verbatim>\<open>7b\<close> and \<^verbatim>\<open>22b\<close> resolves; with standard input at its end \<^verbatim>\<open>22b\<close>
  raises; \<^verbatim>\<open>13b\<close> is refused.
\<close>

theorem resolve_catalog_witness:
  "lower (strip '' 7B '') \<in> {''3b'', ''7b''} \<and>
   (\<exists>entry. resolve sample_env '' 7B '' = Inr entry \<and> target_modules entry \<noteq> []) \<and>
   lower (strip ''22b'') = ''22b'' \<and> stdin_line sample_env \<noteq> None \<and>
   (\<exists>entry. resolve sample_env ''22b'' = Inr entry \<and> target_modules entry \<noteq> []) \<and>
   stdin_line unattended_env = None \<and>
   resolve unattended_env ''22b'' = Inl EOFError \<and>
   lower (strip ''13b'') \<notin> {''3b'', ''7b'', ''22b''} \<and>
   resolve sample_env ''13b'' =
     Inl (ValueError ''a model must be provided from 3b, 7b, or 22b'') \<and>
   lower (strip '' 7B '') = lower (strip ''7b'') \<and>
   resolve sample_env '' 7B '' = resolve sample_env ''7b'' \<and>
   (\<exists>e3 e7 e22.
      resolve sample_env ''3b'' = Inr e3 \<and> resolve sample_env ''7b'' = Inr e7 \<and>
      resolve sample_env ''22b'' = Inr e22 \<and>
      length (target_modules e3) \<noteq> length (target_modules e7) \<and>
      set (target_modules e3) \<inter> set (target_modules e22) = {})"
proof -
  have known: "lower (strip '' 7B '') \<in> {''3b'', ''7b''}"
    by (simp add: normalise_7B)
  have large: "lower (strip ''22b'') = ''22b''"
    by (rule normalise_22b)
  have attended: "stdin_line sample_env \<noteq> None"
    by (simp add: sample_env_def)
  have unattended: "stdin_line unattended_env = None"
    by (simp add: unattended_env_def)
  have unknown: "lower (strip ''13b'') \<notin> {''3b'', ''7b'', ''22b''}"
    by (simp add: string_eval)
  have same: "lower (strip '' 7B '') = lower (strip ''7b'')"
    by (simp add: string_eval)
  have entries: "\<exists>e3 e7 e22.
      resolve sample_env ''3b'' = Inr e3 \<and> resolve sample_env ''7b'' = Inr e7 \<and>
      resolve sample_env ''22b'' = Inr e22"
    by (simp add: resolve_3b resolve_7b resolve_22b sample_env_def)
  note small = resolve_catalog [of "'' 7B ''" sample_env "''7b''"]
  note big = resolve_catalog [of "''22b''" sample_env "''22b''"]
  note eof = resolve_catalog [of "''22b''" unattended_env "''22b''"]
  note other = resolve_catalog [of "''13b''" sample_env "''13b''"]
  have c1: "\<exists>entry. resolve sample_env '' 7B '' = Inr entry \<and> target_modules entry \<noteq> []"
    using small [THEN conjunct1] known by (rule mp)
  have c2: "\<exists>entry. resolve sample_env ''22b'' = Inr entry \<and> target_modules entry \<noteq> []"
    using big [THEN conjunct2, THEN conjunct1] conjI [OF large attended] by (rule mp)
  have c3: "resolve unattended_env ''22b'' = Inl EOFError"
    using eof [THEN conjunct2, THEN conjunct2, THEN conjunct1] conjI [OF large unattended]
    by (rule mp)
  have c4: "resolve sample_env ''13b'' =
      Inl (ValueError ''a model must be provided from 3b, 7b, or 22b'')"
    using other [THEN conjunct2, THEN conjunct2, THEN conjunct2, THEN conjunct1] unknown
    by (rule mp)
  have c5: "resolve sample_env '' 7B '' = resolve sample_env ''7b''"
    using small [THEN conjunct2, THEN conjunct2, THEN conjunct2, THEN conjunct2, THEN conjunct1]
          same
    by (rule mp)
  obtain e3 e7 e22 where e: "resolve sample_env ''3b'' = Inr e3 \<and>
      resolve sample_env ''7b'' = Inr e7 \<and> resolve sample_env ''22b'' = Inr e22"
    using entries by blast
  have lists: "target_modules e3 = [''qkv_proj''] \<and>
        target_modules e7 = [''q_proj'', ''k_proj'', ''v_proj''] \<and>
        target_modules e22 = [''q_proj'', ''k_proj'', ''v_proj''] \<and>
        length (target_modules e3) \<noteq> length (target_modules e7) \<and>
        length (target_modules e3) \<noteq> length (target_modules e22) \<and>
        set (target_modules e3) \<inter> set (target_modules e7) = {} \<and>
        set (target_modules e3) \<inter> set (target_modules e22) = {}"
    by (rule small [THEN conjunct2, THEN conjunct2, THEN conjunct2, THEN conjunct2,
                    THEN conjunct2, rule_format, OF e])
  have c6: "\<exists>e3 e7 e22.
      resolve sample_env ''3b'' = Inr e3 \<and> resolve sample_env ''7b'' = Inr e7 \<and>
      resolve sample_env ''22b'' = Inr e22 \<and>
      length (target_modules e3) \<noteq> length (target_modules e7) \<and>
      set (target_modules e3) \<inter> set (target_modules e22) = {}"
    using e lists by blast
  show ?thesis
    using known c1 large attended c2 unattended c3 unknown c4 same c5 c6
    by (intro conjI)
qed


section \<open>Choosing the data collator (claim C5)\<close>

text \<open>
  Every model name of the catalogue contains exactly one of the two family markers, so
  after a successful look-up exactly one flag is set.
\<close>

lemma catalogue_families:
  assumes "resolve env model_arg = Inr entry"
  shows "py_in ''microsoft'' (modelname entry) \<noteq> py_in ''mistral'' (modelname entry)"
  using assms by (auto simp: resolve_def Let_def split: if_splits option.splits)

lemma sample_training:
  "run_full_SFT_training sample_env no_flags '' 7B '' ''hf_token'' =
     (Inr (\<lparr>lm_source = Hub ''mistralai/Mistral-7B-Instruct-v0.3'',
            lora_targets = Some [''q_proj'', ''k_proj'', ''v_proj''],
            train_mode = False\<rparr>,
           \<lparr>tok_source = PyStr ''mistralai/Mistral-7B-Instruct-v0.3'',
            pad_token = Some ''[PAD]''\<rparr>),
      \<lparr>microsoft_model = False, mistral_model = True\<rparr>)"
  by (simp add: run_full_SFT_training_def load_model_and_tokenizer_def resolve_7B
        select_collator_def output_dir_def no_flags_def sample_env_def)

text \<open>
  Claim C5. The collator is chosen by the family flags: the Microsoft family gets the
  delimiters \<^verbatim>\<open><|user|>\<close> and \<^verbatim>\<open><|assistant|>\<close>, the Mistral family
  \<^verbatim>\<open>[INST]\<close> and \<^verbatim>\<open>[/INST]\<close>, and with neither flag set the choice fails with
  the \<open>ValueError\<close> of line 278: there is no fallback collator. A training run that
  succeeds has set the flags from the resolved model name and has trained with the
  collator chosen for them.
\<close>

theorem select_collator_by_family:
  "select_collator \<lparr>microsoft_model = True, mistral_model = b\<rparr> =
     Inr \<lparr>response_template = ''<|assistant|>'', instruction_template = ''<|user|>''\<rparr> \<and>
   select_collator \<lparr>microsoft_model = False, mistral_model = True\<rparr> =
     Inr \<lparr>response_template = ''[/INST]'', instruction_template = ''[INST]''\<rparr> \<and>
   select_collator \<lparr>microsoft_model = False, mistral_model = False\<rparr> =
     Inl (ValueError ''could not find a valid model, please specify a model type either mistral models or microsoft (phi) models'') \<and>
   (run_full_SFT_training env g model_arg token = (Inr (m, t), g1) \<longrightarrow>
      (\<exists>entry data_collator m0.
         resolve env model_arg = Inr entry \<and>
         microsoft_model g1 = py_in ''microsoft'' (modelname entry) \<and>
         mistral_model g1 = py_in ''mistral'' (modelname entry) \<and>
         select_collator g1 = Inr data_collator \<and>
         sft_train env m0 t data_collator (output_dir g1 @ [''checkpoint-bestperf'']) = None))"
proof (intro conjI impI)
  assume "run_full_SFT_training env g model_arg token = (Inr (m, t), g1)"
  then show "\<exists>entry data_collator m0.
         resolve env model_arg = Inr entry \<and>
         microsoft_model g1 = py_in ''microsoft'' (modelname entry) \<and>
         mistral_model g1 = py_in ''mistral'' (modelname entry) \<and>
         select_collator g1 = Inr data_collator \<and>
         sft_train env m0 t data_collator (output_dir g1 @ [''checkpoint-bestperf'']) = None"
    by (auto simp: run_full_SFT_training_def load_model_and_tokenizer_def Let_def
             split: prod.splits sum.splits option.splits)
qed (simp_all add: select_collator_def)

text \<open>Training the sample model \<^verbatim>\<open>" 7B "\<close> uses the Mistral collator.\<close>

theorem select_collator_by_family_witness:
  "run_full_SFT_training sample_env no_flags '' 7B '' ''hf_token'' =
     (Inr (\<lparr>lm_source = Hub ''mistralai/Mistral-7B-Instruct-v0.3'',
            lora_targets = Some [''q_proj'', ''k_proj'', ''v_proj''],
            train_mode = False\<rparr>,
           \<lparr>tok_source = PyStr ''mistralai/Mistral-7B-Instruct-v0.3'',
            pad_token = Some ''[PAD]''\<rparr>),
      \<lparr>microsoft_model = False, mistral_model = True\<rparr>) \<and>
   (\<exists>entry data_collator m0.
      resolve sample_env '' 7B '' = Inr entry \<and>
      select_collator \<lparr>microsoft_model = False, mistral_model = True\<rparr> = Inr data_collator \<and>
      sft_train sample_env m0
        \<lparr>tok_source = PyStr ''mistralai/Mistral-7B-Instruct-v0.3'', pad_token = Some ''[PAD]''\<rparr>
        data_collator
        (output_dir \<lparr>microsoft_model = False, mistral_model = True\<rparr> @ [''checkpoint-bestperf'']) =
        None)"
  using select_collator_by_family [of _ sample_env no_flags "'' 7B ''" "''hf_token''"]
        sample_training
  by blast


section \<open>Restoring a checkpoint (claim C2)\<close>

text \<open>
  Claim C2 says that a sidecar file without the field \<^verbatim>\<open>base_model_name_or_path\<close>
  makes the load fail and that the load never goes on with a null identifier. The
  helper reads the field with \<^verbatim>\<open>dict.get\<close>, which answers \<^verbatim>\<open>None\<close>, and the
  load hands that to the tokenizer loader: where the loader accepts it, the load
  succeeds with a tokenizer built from \<^verbatim>\<open>None\<close>.
\<close>

theorem missing_base_model_counterexample:
  "json_load restored_env [''checkpoint-bestperf'', ''adapter_config.json''] =
     Inr (PyDict [(''peft_type'', PyStr ''LORA'')]) \<and>
   get_base_model_name_or_path restored_env [''checkpoint-bestperf'', ''adapter_config.json''] =
     Inr PyNone \<and>
   load_model_from_checkpoint restored_env [''checkpoint-bestperf''] ''cpu'' ''hf_token'' =
     Inr (\<lparr>lm_source = Disk [''checkpoint-bestperf''], lora_targets = None, train_mode = False\<rparr>,
          \<lparr>tok_source = PyNone, pad_token = Some ''[PAD]''\<rparr>)"
  by (simp add: load_model_from_checkpoint_def get_base_model_name_or_path_def
        restored_env_def sample_env_def)

text \<open>
  Claim C2, amended. When the adapter was restored and the sidecar file parses to a
  dictionary without the field, the helper returns \<^verbatim>\<open>None\<close> without an error and
  the load is decided by the tokenizer loader applied to \<^verbatim>\<open>None\<close>: its error if it
  raises, otherwise the restored model with a tokenizer built from \<^verbatim>\<open>None\<close>. When
  the sidecar file cannot be opened or parsed, the load fails with that error.
\<close>

theorem load_model_from_checkpoint_metadata:
  "(peft_from_pretrained env checkpoint_dir dev = None \<and>
    json_load env (checkpoint_dir @ [''adapter_config.json'']) = Inr (PyDict items) \<and>
    map_of items ''base_model_name_or_path'' = None \<longrightarrow>
      get_base_model_name_or_path env (checkpoint_dir @ [''adapter_config.json'']) = Inr PyNone \<and>
      load_model_from_checkpoint env checkpoint_dir dev token =
        (case tokenizer_from_pretrained env PyNone token of
           Some e \<Rightarrow> Inl e
         | None \<Rightarrow>
             Inr (\<lparr>lm_source = Disk checkpoint_dir, lora_targets = None, train_mode = False\<rparr>,
                  \<lparr>tok_source = PyNone, pad_token = Some ''[PAD]''\<rparr>))) \<and>
   (peft_from_pretrained env checkpoint_dir dev = None \<and>
    json_load env (checkpoint_dir @ [''adapter_config.json'']) = Inl e \<longrightarrow>
      load_model_from_checkpoint env checkpoint_dir dev token = Inl e)"
  by (simp add: load_model_from_checkpoint_def get_base_model_name_or_path_def)

text \<open>
  Both cases: a sidecar file that only names the adapter type, and a checkpoint
  directory without a sidecar file.
\<close>

theorem load_model_from_checkpoint_metadata_witness:
  "peft_from_pretrained restored_env [''checkpoint-bestperf''] ''cpu'' = None \<and>
   json_load restored_env ([''checkpoint-bestperf''] @ [''adapter_config.json'']) =
     Inr (PyDict [(''peft_type'', PyStr ''LORA'')]) \<and>
   map_of [(''peft_type'', PyStr ''LORA'')] ''base_model_name_or_path'' = None \<and>
   get_base_model_name_or_path restored_env ([''checkpoint-bestperf''] @ [''adapter_config.json'']) =
     Inr PyNone \<and>
   tokenizer_from_pretrained restored_env PyNone ''hf_token'' = None \<and>
   load_model_from_checkpoint restored_env [''checkpoint-bestperf''] ''cpu'' ''hf_token'' =
     Inr (\<lparr>lm_source = Disk [''checkpoint-bestperf''], lora_targets = None, train_mode = False\<rparr>,
          \<lparr>tok_source = PyNone, pad_token = Some ''[PAD]''\<rparr>) \<and>
   json_load sample_env ([''checkpoint-bestperf''] @ [''adapter_config.json'']) =
     Inl (Raised ''FileNotFoundError'') \<and>
   load_model_from_checkpoint sample_env [''checkpoint-bestperf''] ''cpu'' ''hf_token'' =
     Inl (Raised ''FileNotFoundError'')"
proof -
  have adapter: "peft_from_pretrained restored_env [''checkpoint-bestperf''] ''cpu'' = None"
    and adapter': "peft_from_pretrained sample_env [''checkpoint-bestperf''] ''cpu'' = None"
    and sidecar: "json_load restored_env ([''checkpoint-bestperf''] @ [''adapter_config.json'']) =
      Inr (PyDict [(''peft_type'', PyStr ''LORA'')])"
    and absent: "map_of [(''peft_type'', PyStr ''LORA'')] ''base_model_name_or_path'' = None"
    and accepts: "tokenizer_from_pretrained restored_env PyNone ''hf_token'' = None"
    and unreadable: "json_load sample_env ([''checkpoint-bestperf''] @ [''adapter_config.json'']) =
      Inl (Raised ''FileNotFoundError'')"
    by (simp_all add: restored_env_def sample_env_def)
  show ?thesis
    using load_model_from_checkpoint_metadata
            [of restored_env "[''checkpoint-bestperf'']" "''cpu''"
                "[(''peft_type'', PyStr ''LORA'')]" "''hf_token''"]
          load_model_from_checkpoint_metadata
            [of sample_env "[''checkpoint-bestperf'']" "''cpu''" _ "''hf_token''"
                "Raised ''FileNotFoundError''"]
          adapter adapter' sidecar absent accepts unreadable
    by simp
qed


section \<open>Finding the checkpoint (claim C8)\<close>

text \<open>
  The scan reports exactly the entries, at any depth, whose name contains the marker.
\<close>

lemma node_at_iff:
  "node_at cs rel node \<longleftrightarrow>
     (node \<in> set cs \<and> rel = [node_name node]) \<or>
     (\<exists>n ds rel'. Dir n ds \<in> set cs \<and> rel = n # rel' \<and> node_at ds rel' node)"
  by (subst node_at.simps) auto

lemma reported_iff:
  "reported cs rel b \<longleftrightarrow>
     (\<exists>c \<in> set cs. rel = [node_name c] \<and> py_in ''checkpoint-bestperf'' (node_name c) \<and> b = is_dir c) \<or>
     (\<exists>n ds rel'. Dir n ds \<in> set cs \<and> rel = n # rel' \<and> reported ds rel' b)"
  by (subst node_at_iff) blast

lemma glob_reports:
  "(q, b) \<in> set (glob_checkpoints p cs) \<longleftrightarrow> (\<exists>rel. q = p @ rel \<and> reported cs rel b)"
  "(q, b) \<in> set (glob_below p cs) \<longleftrightarrow>
     (\<exists>n ds rel. Dir n ds \<in> set cs \<and> q = p @ n # rel \<and> reported ds rel b)"
  "(q, b) \<in> set (glob_node p c) \<longleftrightarrow>
     (\<exists>n ds rel. c = Dir n ds \<and> q = p @ n # rel \<and> reported ds rel b)"
proof (induction p cs and p cs and p c arbitrary: q b and q b and q b
       rule: glob_checkpoints_glob_below_glob_node.induct)
  case (1 p cs)
  have "(q, b) \<in> set (glob_checkpoints p cs) \<longleftrightarrow>
      (\<exists>c \<in> set cs. q = p @ [node_name c] \<and> py_in ''checkpoint-bestperf'' (node_name c) \<and> b = is_dir c) \<or>
      (\<exists>n ds rel. Dir n ds \<in> set cs \<and> q = p @ n # rel \<and> reported ds rel b)"
    by (auto simp: glob_checkpoints.simps "1.IH")
  also have "\<dots> \<longleftrightarrow> (\<exists>rel. q = p @ rel \<and> reported cs rel b)"
    by (simp only: reported_iff [of cs]) blast
  finally show ?case .
next
  case (2 p)
  show ?case by simp
next
  case (3 p c cs)
  show ?case
    by (auto simp: "3.IH")
next
  case (4 p n)
  show ?case by simp
next
  case (5 p n cs)
  have "(q, b) \<in> set (glob_node p (Dir n cs)) \<longleftrightarrow>
      (\<exists>rel. q = (p @ [n]) @ rel \<and> reported cs rel b)"
    by (simp only: glob_node.simps "5.IH")
  then show ?case
    by simp
qed

lemma select_checkpoint_cases:
  "select_checkpoint ms =
     (if ms = [] then None else if snd (last ms) then Some (fst (last ms)) else None)"
  by (simp add: select_checkpoint_def)

lemmas glob_eval =
  glob_checkpoints.simps sample_env_def restored_env_def archive_env_def checkpoint_tree_def

lemma sample_scan: "glob_checkpoints [] (base_dir sample_env) = []"
  by (simp add: glob_eval)

lemma restored_scan:
  "glob_checkpoints [] (base_dir restored_env) = [([''checkpoint-bestperf''], True)]"
  by (simp add: glob_eval)

lemma archive_scan:
  "glob_checkpoints [] (base_dir archive_env) =
     [([''glayout_llm_checkpointsmstrl'', ''checkpoint-bestperf''], True),
      ([''glayout_llm_checkpointsmstrl'', ''checkpoint-bestperf.zip''], False)]"
  by (simp add: glob_eval)

text \<open>
  Claim C8 says that whenever the scan has matches the last of them is the checkpoint
  that is loaded. Line 317 asks in addition that the last match is a directory: with
  an archive \<^verbatim>\<open>checkpoint-bestperf.zip\<close> listed after the checkpoint directory, the
  scan has two matches, none is selected, and the constructor trains.
\<close>

theorem last_match_not_selected_counterexample:
  "glob_checkpoints [] (base_dir archive_env) =
     [([''glayout_llm_checkpointsmstrl'', ''checkpoint-bestperf''], True),
      ([''glayout_llm_checkpointsmstrl'', ''checkpoint-bestperf.zip''], False)] \<and>
   select_checkpoint (glob_checkpoints [] (base_dir archive_env)) = None \<and>
   init_model archive_env no_flags ''7b'' ''hf_token'' ''cpu'' =
     run_full_SFT_training archive_env no_flags ''7b'' ''hf_token''"
  by (simp add: archive_scan init_model_def select_checkpoint_def)

text \<open>
  Claim C8, amended. The scan reports the entries, files and directories at any depth
  below the module's directory, whose name contains \<^verbatim>\<open>checkpoint-bestperf\<close>. When
  it reports nothing the constructor trains; when the last reported entry is a
  directory the constructor loads that entry as the checkpoint; when the last reported
  entry is not a directory the constructor trains as well.
\<close>

theorem checkpoint_discovery:
  "((q, b) \<in> set (glob_checkpoints [] (base_dir env)) \<longleftrightarrow>
      (\<exists>node. node_at (base_dir env) q node \<and>
              py_in ''checkpoint-bestperf'' (node_name node) \<and> b = is_dir node)) \<and>
   (glob_checkpoints [] (base_dir env) = [] \<longrightarrow>
      init_model env g model_key token dev = run_full_SFT_training env g model_key token) \<and>
   (glob_checkpoints [] (base_dir env) \<noteq> [] \<and>
    snd (last (glob_checkpoints [] (base_dir env))) \<longrightarrow>
      init_model env g model_key token dev =
        (load_model_from_checkpoint env
           (fst (last (glob_checkpoints [] (base_dir env)))) dev token, g)) \<and>
   (glob_checkpoints [] (base_dir env) \<noteq> [] \<and>
    \<not> snd (last (glob_checkpoints [] (base_dir env))) \<longrightarrow>
      init_model env g model_key token dev = run_full_SFT_training env g model_key token)"
proof (intro conjI impI)
  show "(q, b) \<in> set (glob_checkpoints [] (base_dir env)) \<longleftrightarrow>
      (\<exists>node. node_at (base_dir env) q node \<and>
              py_in ''checkpoint-bestperf'' (node_name node) \<and> b = is_dir node)"
    using glob_reports(1) [of q b "[]" "base_dir env"] by simp
qed (simp_all add: init_model_def select_checkpoint_cases)

text \<open>
  The three cases: the sample world without a checkpoint, a world with the checkpoint
  directory only, and the world with the archive beside it.
\<close>

theorem checkpoint_discovery_witness:
  "glob_checkpoints [] (base_dir sample_env) = [] \<and>
   init_model sample_env no_flags ''7b'' ''hf_token'' ''cpu'' =
     run_full_SFT_training sample_env no_flags ''7b'' ''hf_token'' \<and>
   glob_checkpoints [] (base_dir restored_env) \<noteq> [] \<and>
   snd (last (glob_checkpoints [] (base_dir restored_env))) \<and>
   init_model restored_env no_flags ''7b'' ''hf_token'' ''cpu'' =
     (load_model_from_checkpoint restored_env [''checkpoint-bestperf''] ''cpu'' ''hf_token'',
      no_flags) \<and>
   (\<exists>node. node_at (base_dir restored_env) [''checkpoint-bestperf''] node \<and>
           py_in ''checkpoint-bestperf'' (node_name node) \<and> is_dir node) \<and>
   glob_checkpoints [] (base_dir archive_env) \<noteq> [] \<and>
   \<not> snd (last (glob_checkpoints [] (base_dir archive_env))) \<and>
   init_model archive_env no_flags ''7b'' ''hf_token'' ''cpu'' =
     run_full_SFT_training archive_env no_flags ''7b'' ''hf_token''"
proof -
  have found: "([''checkpoint-bestperf''], True) \<in> set (glob_checkpoints [] (base_dir restored_env))"
    by (simp add: restored_scan)
  show ?thesis
    using checkpoint_discovery [of _ _ sample_env no_flags "''7b''" "''hf_token''" "''cpu''"]
          checkpoint_discovery
            [of "[''checkpoint-bestperf'']" True restored_env no_flags "''7b''" "''hf_token''" "''cpu''"]
          checkpoint_discovery [of _ _ archive_env no_flags "''7b''" "''hf_token''" "''cpu''"]
          found
    by (simp add: sample_scan restored_scan archive_scan)
qed

end
